theory Spec2Isabelle
  imports Complex_Main
begin

section \<open>Data model\<close>

text \<open>
  In the model of the service JavaScript numbers are exact reals: it describes the code
  as it would run in exact arithmetic, and the rounding of IEEE doubles is not part of
  it. A value that is not a finite number (\<open>NaN\<close>, \<open>Infinity\<close>: the quotient by zero, the
  square root of a negative number) is \<open>None\<close>. Where rounding decides a statement, the
  section on binary64 arithmetic below gives \<open>cosineSimilarity\<close> and the fallback search
  over IEEE doubles. An optional field (\<open>field?: T\<close>, or a property of an untyped payload
  that may be \<open>undefined\<close>) is an \<open>option\<close>.
\<close>

type_synonym number = real

definition js_divide :: "number \<Rightarrow> number \<Rightarrow> number option" where
  "js_divide x y = (if y = 0 then None else Some (x / y))"

definition js_sqrt :: "number \<Rightarrow> number option" where
  "js_sqrt x = (if x < 0 then None else Some (sqrt x))"

text \<open>\<open>DocumentChunk\<close> (imported from the chunking service): the stored record.\<close>

record DocumentChunk =
  doc_id :: string
  doc_documentName :: string
  doc_content :: string
  doc_enhancedContent :: "string option"
  doc_title :: "string option"
  doc_summary :: "string option"
  doc_sourceFile :: "string option"
  doc_domains :: "string list option"
  doc_embedding :: "number list"

text \<open>
  \<open>SearchResult\<close>. On the Qdrant path \<open>id\<close>, \<open>documentName\<close> and \<open>content\<close> are copied
  from an untyped payload and may be \<open>undefined\<close> at run time, hence the options.
\<close>

record SearchResult =
  res_id :: "string option"
  res_documentName :: "string option"
  res_content :: "string option"
  res_enhancedContent :: "string option"
  res_title :: "string option"
  res_summary :: "string option"
  res_sourceFile :: "string option"
  res_domains :: "string list option"
  res_score :: "number option"

section \<open>Cosine similarity of the in-memory fallback\<close>

text \<open>The \<open>for\<close> loop of \<open>cosineSimilarity\<close>: the three accumulators, index by index.\<close>

fun cosine_loop :: "number list \<Rightarrow> number list \<Rightarrow> number \<times> number \<times> number
    \<Rightarrow> number \<times> number \<times> number" where
  "cosine_loop (x # xs) (y # ys) (dotProduct, aMagnitude, bMagnitude) =
     cosine_loop xs ys (dotProduct + x * y, aMagnitude + x * x, bMagnitude + y * y)"
| "cosine_loop _ _ acc = acc"

definition cosineSimilarity :: "number list \<Rightarrow> number list \<Rightarrow> number option" where
  "cosineSimilarity a b =
     (if length a \<noteq> length b then Some 0
      else
        (case cosine_loop a b (0, 0, 0) of (dotProduct, aSq, bSq) \<Rightarrow>
           (case (js_sqrt aSq, js_sqrt bSq) of
              (Some aMagnitude, Some bMagnitude) \<Rightarrow>
                if aMagnitude = 0 \<or> bMagnitude = 0 then Some 0
                else js_divide dotProduct (aMagnitude * bMagnitude)
            | _ \<Rightarrow> None)))"

text \<open>The Euclidean norm, as mathematics defines it (not taken from the code).\<close>

definition magnitude :: "number list \<Rightarrow> number" where
  "magnitude v = sqrt (\<Sum>x\<leftarrow>v. x * x)"

definition dot :: "number list \<Rightarrow> number list \<Rightarrow> number" where
  "dot a b = (\<Sum>(x, y)\<leftarrow>zip a b. x * y)"

section \<open>Binary64 arithmetic\<close>

text \<open>
  The numbers the code really computes with: IEEE 754 binary64. A finite double is
  \<open>Finite m e\<close>, standing for \<open>m * 2 ^ e\<close>; every operation returns its result in the form
  with \<open>2 ^ 52 \<le> \<bar>m\<bar> < 2 ^ 53\<close> (or \<open>e = - 1074\<close> for a subnormal, or \<open>Finite 0 0\<close> for
  zero). The sign of zero is not modelled: \<open>cosineSimilarity\<close> and the comparator of the
  sort cannot tell \<open>-0\<close> from \<open>0\<close>.

  \<open>round_double neg m e sticky\<close> rounds the magnitude \<open>m * 2 ^ e\<close> (plus a non-zero
  remainder below its last bit when \<open>sticky\<close>) to the nearest double, ties to even:
  to 53 bits, or to a multiple of \<open>2 ^ - 1074\<close> in the subnormal range, and to infinity
  beyond the largest double.
\<close>

datatype double = Finite int int | PosInf | NegInf | NaN

text \<open>The number of binary digits of a natural number.\<close>

fun bits :: "nat \<Rightarrow> nat" where
  "bits n = (if n = 0 then 0 else Suc (bits (n div 2)))"

declare bits.simps [simp del]

definition finish :: "bool \<Rightarrow> nat \<Rightarrow> int \<Rightarrow> double" where
  "finish neg q e =
     (if e > 971 then (if neg then NegInf else PosInf)
      else if q = 0 then Finite 0 0
      else Finite (if neg then - int q else int q) e)"

definition carry :: "bool \<Rightarrow> nat \<Rightarrow> int \<Rightarrow> double" where
  "carry neg q e = (if q = 2 ^ 53 then finish neg (2 ^ 52) (e + 1) else finish neg q e)"

definition round_up :: "bool \<Rightarrow> nat \<Rightarrow> nat \<Rightarrow> nat \<Rightarrow> bool \<Rightarrow> int \<Rightarrow> double" where
  "round_up neg q r half sticky e =
     carry neg (if r > half \<or> (r = half \<and> (sticky \<or> odd q)) then q + 1 else q) e"

definition round_at :: "bool \<Rightarrow> nat \<Rightarrow> int \<Rightarrow> bool \<Rightarrow> int \<Rightarrow> double" where
  "round_at neg m e sticky e' =
     (if e' \<le> e then finish neg (m * 2 ^ nat (e - e')) e'
      else round_up neg (m div 2 ^ nat (e' - e)) (m mod 2 ^ nat (e' - e))
             (2 ^ (nat (e' - e) - 1)) sticky e')"

definition round_double :: "bool \<Rightarrow> nat \<Rightarrow> int \<Rightarrow> bool \<Rightarrow> double" where
  "round_double neg m e sticky =
     (if m = 0 then Finite 0 0
      else round_at neg m e sticky (max (e + int (bits m) - 53) (- 1074)))"

fun dmul :: "double \<Rightarrow> double \<Rightarrow> double" where
  "dmul (Finite a ea) (Finite b eb) =
     round_double ((a < 0) \<noteq> (b < 0)) (nat \<bar>a\<bar> * nat \<bar>b\<bar>) (ea + eb) False"
| "dmul NaN y = NaN"
| "dmul x NaN = NaN"
| "dmul (Finite a ea) PosInf = (if a = 0 then NaN else if a < 0 then NegInf else PosInf)"
| "dmul (Finite a ea) NegInf = (if a = 0 then NaN else if a < 0 then PosInf else NegInf)"
| "dmul PosInf (Finite b eb) = (if b = 0 then NaN else if b < 0 then NegInf else PosInf)"
| "dmul NegInf (Finite b eb) = (if b = 0 then NaN else if b < 0 then PosInf else NegInf)"
| "dmul PosInf PosInf = PosInf"
| "dmul PosInf NegInf = NegInf"
| "dmul NegInf PosInf = NegInf"
| "dmul NegInf NegInf = PosInf"

definition round_int :: "int \<Rightarrow> int \<Rightarrow> double" where
  "round_int m e = round_double (m < 0) (nat \<bar>m\<bar>) e False"

fun dadd :: "double \<Rightarrow> double \<Rightarrow> double" where
  "dadd (Finite a ea) (Finite b eb) =
     round_int (a * 2 ^ nat (ea - min ea eb) + b * 2 ^ nat (eb - min ea eb)) (min ea eb)"
| "dadd NaN y = NaN"
| "dadd x NaN = NaN"
| "dadd PosInf NegInf = NaN"
| "dadd NegInf PosInf = NaN"
| "dadd PosInf y = PosInf"
| "dadd NegInf y = NegInf"
| "dadd x PosInf = PosInf"
| "dadd x NegInf = NegInf"

definition round_quotient :: "bool \<Rightarrow> nat \<Rightarrow> nat \<Rightarrow> int \<Rightarrow> double" where
  "round_quotient neg n d e = round_double neg (n div d) e (n mod d \<noteq> 0)"

fun ddiv :: "double \<Rightarrow> double \<Rightarrow> double" where
  "ddiv (Finite a ea) (Finite b eb) =
     (if b = 0 then (if a = 0 then NaN else if a < 0 then NegInf else PosInf)
      else round_quotient ((a < 0) \<noteq> (b < 0))
             (nat \<bar>a\<bar> * 2 ^ (bits (nat \<bar>b\<bar>) + 55)) (nat \<bar>b\<bar>)
             (ea - eb - int (bits (nat \<bar>b\<bar>) + 55)))"
| "ddiv NaN y = NaN"
| "ddiv x NaN = NaN"
| "ddiv (Finite a ea) PosInf = Finite 0 0"
| "ddiv (Finite a ea) NegInf = Finite 0 0"
| "ddiv PosInf (Finite b eb) = (if b < 0 then NegInf else PosInf)"
| "ddiv NegInf (Finite b eb) = (if b < 0 then PosInf else NegInf)"
| "ddiv PosInf PosInf = NaN"
| "ddiv PosInf NegInf = NaN"
| "ddiv NegInf PosInf = NaN"
| "ddiv NegInf NegInf = NaN"

text \<open>The integer square root, bit by bit from the top.\<close>

fun isqrt_loop :: "nat \<Rightarrow> nat \<Rightarrow> nat \<Rightarrow> nat" where
  "isqrt_loop k r n =
     (if k = 0 then r
      else if (r + 2 ^ (k - 1)) * (r + 2 ^ (k - 1)) \<le> n then isqrt_loop (k - 1) (r + 2 ^ (k - 1)) n
      else isqrt_loop (k - 1) r n)"

declare isqrt_loop.simps [simp del]

definition isqrt :: "nat \<Rightarrow> nat" where
  "isqrt n = isqrt_loop ((bits n + 1) div 2) 0 n"

definition round_root :: "nat \<Rightarrow> nat \<Rightarrow> int \<Rightarrow> double" where
  "round_root r n e = round_double False r e (r * r \<noteq> n)"

definition sqrt_scaled :: "nat \<Rightarrow> int \<Rightarrow> double" where
  "sqrt_scaled n e = round_root (isqrt n) n e"

fun dsqrt :: "double \<Rightarrow> double" where
  "dsqrt (Finite a e) =
     (if a < 0 then NaN
      else if a = 0 then Finite 0 0
      else if even e then sqrt_scaled (nat a * 2 ^ 110) ((e - 110) div 2)
      else sqrt_scaled (nat a * 2 ^ 111) ((e - 111) div 2))"
| "dsqrt PosInf = PosInf"
| "dsqrt NegInf = NaN"
| "dsqrt NaN = NaN"

text \<open>The double of an integer literal.\<close>

definition js_int :: "int \<Rightarrow> double" where
  "js_int i = round_int i 0"

text \<open>\<open>x === 0\<close> on doubles.\<close>

fun is_zero :: "double \<Rightarrow> bool" where
  "is_zero (Finite m e) = (m = 0)"
| "is_zero x = False"

text \<open>\<open>cosineSimilarity\<close> again, line by line, in binary64 arithmetic.\<close>

fun cosine_loop_binary64 :: "double list \<Rightarrow> double list \<Rightarrow> double \<times> double \<times> double
    \<Rightarrow> double \<times> double \<times> double" where
  "cosine_loop_binary64 (x # xs) (y # ys) (dotProduct, aMagnitude, bMagnitude) =
     cosine_loop_binary64 xs ys
       (dadd dotProduct (dmul x y), dadd aMagnitude (dmul x x), dadd bMagnitude (dmul y y))"
| "cosine_loop_binary64 _ _ acc = acc"

definition cosine_quotient :: "double \<Rightarrow> double \<Rightarrow> double \<Rightarrow> double" where
  "cosine_quotient dotProduct aMagnitude bMagnitude =
     (if is_zero aMagnitude \<or> is_zero bMagnitude then Finite 0 0
      else ddiv dotProduct (dmul aMagnitude bMagnitude))"

definition cosineSimilarity_binary64 :: "double list \<Rightarrow> double list \<Rightarrow> double" where
  "cosineSimilarity_binary64 a b =
     (if length a \<noteq> length b then Finite 0 0
      else
        (case cosine_loop_binary64 a b (Finite 0 0, Finite 0 0, Finite 0 0) of
           (dotProduct, aSq, bSq) \<Rightarrow> cosine_quotient dotProduct (dsqrt aSq) (dsqrt bSq)))"


text \<open>Negation and subtraction.\<close>

fun dneg :: "double \<Rightarrow> double" where
  "dneg (Finite m e) = Finite (- m) e"
| "dneg PosInf = NegInf"
| "dneg NegInf = PosInf"
| "dneg NaN = NaN"

definition dsub :: "double \<Rightarrow> double \<Rightarrow> double" where
  "dsub x y = dadd x (dneg y)"

section \<open>The in-memory store\<close>

text \<open>
  \<open>inMemoryDocuments\<close> is a JavaScript \<open>Map\<close>: keys are unique, iteration follows
  insertion order, \<open>set\<close> on a present key replaces the value in place, \<open>delete\<close> removes
  the entry. The wrapper object \<open>{ document: doc }\<close> is elided.
\<close>

type_synonym docs = "(string \<times> DocumentChunk) list"

fun map_set :: "string \<Rightarrow> DocumentChunk \<Rightarrow> docs \<Rightarrow> docs" where
  "map_set k v [] = [(k, v)]"
| "map_set k v ((k', v') # m) = (if k' = k then (k, v) # m else (k', v') # map_set k v m)"

fun map_get :: "docs \<Rightarrow> string \<Rightarrow> DocumentChunk option" where
  "map_get [] k = None"
| "map_get ((k', v') # m) k = (if k' = k then Some v' else map_get m k)"

fun map_delete :: "string \<Rightarrow> docs \<Rightarrow> docs" where
  "map_delete k [] = []"
| "map_delete k ((k', v') # m) = (if k' = k then m else (k', v') # map_delete k m)"

definition map_has :: "docs \<Rightarrow> string \<Rightarrow> bool" where
  "map_has m k = (case map_get m k of None \<Rightarrow> False | Some _ \<Rightarrow> True)"

text \<open>\<open>String.prototype.startsWith\<close>.\<close>

fun startsWith :: "string \<Rightarrow> string \<Rightarrow> bool" where
  "startsWith s [] = True"
| "startsWith [] (p # ps) = False"
| "startsWith (c # cs) (p # ps) = (c = p \<and> startsWith cs ps)"

text \<open>\<open>Array.prototype.slice(0, limit)\<close> for an integral \<open>limit\<close>: a negative end counts
  from the end of the array.\<close>

definition slice0 :: "int \<Rightarrow> 'a list \<Rightarrow> 'a list" where
  "slice0 limit xs =
     (if limit < 0 then take (nat (int (length xs) + limit)) xs else take (nat limit) xs)"

text \<open>The template literal \<open>`youtube_${videoId}`\<close>.\<close>

definition idPattern :: "string \<Rightarrow> string" where
  "idPattern videoId = ''youtube_'' @ videoId"

subsection \<open>The fallback closures, as functions of the store\<close>

definition addDocumentChunks_fallback :: "DocumentChunk list \<Rightarrow> docs \<Rightarrow> unit \<times> docs" where
  "addDocumentChunks_fallback documents m =
     ((), foldl (\<lambda>m doc. map_set (doc_id doc) doc m) m documents)"

definition searchResult_of_doc :: "DocumentChunk \<Rightarrow> number option \<Rightarrow> SearchResult" where
  "searchResult_of_doc doc sc =
     \<lparr> res_id = Some (doc_id doc),
       res_documentName = Some (doc_documentName doc),
       res_content = Some (doc_content doc),
       res_enhancedContent = doc_enhancedContent doc,
       res_title = doc_title doc,
       res_summary = doc_summary doc,
       res_sourceFile = doc_sourceFile doc,
       res_domains = doc_domains doc,
       res_score = sc \<rparr>"

text \<open>
  \<open>sort((a, b) => b.score - a.score)\<close>. \<open>Array.prototype.sort\<close> is stable; it is modelled
  as the stable insertion sort driven by the comparator: \<open>a\<close> stays before \<open>b\<close> unless the
  comparator is positive (a comparator value \<open>NaN\<close> counts as 0).
\<close>

definition compare_scores :: "SearchResult \<Rightarrow> SearchResult \<Rightarrow> number option" where
  "compare_scores a b =
     (case (res_score b, res_score a) of (Some y, Some x) \<Rightarrow> Some (y - x) | _ \<Rightarrow> None)"

fun insert_by :: "('a \<Rightarrow> 'a \<Rightarrow> number option) \<Rightarrow> 'a \<Rightarrow> 'a list \<Rightarrow> 'a list" where
  "insert_by cmp x [] = [x]"
| "insert_by cmp x (y # ys) =
     (if (case cmp x y of None \<Rightarrow> True | Some c \<Rightarrow> c \<le> 0) then x # y # ys
      else y # insert_by cmp x ys)"

definition js_sort :: "('a \<Rightarrow> 'a \<Rightarrow> number option) \<Rightarrow> 'a list \<Rightarrow> 'a list" where
  "js_sort cmp xs = foldr (insert_by cmp) xs []"

definition searchByVector_fallback :: "number list \<Rightarrow> int \<Rightarrow> docs \<Rightarrow> SearchResult list \<times> docs" where
  "searchByVector_fallback queryVector limit m =
     (slice0 limit
        (js_sort compare_scores
           (map (\<lambda>(k, doc). searchResult_of_doc doc (cosineSimilarity queryVector (doc_embedding doc))) m)),
      m)"

text \<open>
  The fallback closure of \<open>searchByVector\<close> in binary64 arithmetic, with every stored
  record reduced to its id and embedding and every result to its id and score. Only the
  sign of the comparator \<open>b.score - a.score\<close> matters to the sort; \<open>comparator_sign\<close>
  keeps it (\<open>None\<close> for \<open>NaN\<close>).
\<close>

fun comparator_sign :: "double \<Rightarrow> number option" where
  "comparator_sign (Finite m e) = Some (of_int m)"
| "comparator_sign PosInf = Some 1"
| "comparator_sign NegInf = Some (- 1)"
| "comparator_sign NaN = None"



definition doesTranscriptExist_fallback :: "string \<Rightarrow> docs \<Rightarrow> bool \<times> docs" where
  "doesTranscriptExist_fallback pat m = (list_ex (\<lambda>(k, doc). startsWith (doc_id doc) pat) m, m)"

definition deleteYoutubeTranscriptChunks_fallback :: "string \<Rightarrow> docs \<Rightarrow> nat \<times> docs" where
  "deleteYoutubeTranscriptChunks_fallback pat m =
     (case foldl (\<lambda>(m', deletedCount) key.
                    (case map_get m' key of
                       None \<Rightarrow> (m', deletedCount)
                     | Some doc \<Rightarrow>
                         if startsWith (doc_id doc) pat
                         then (map_delete key m', deletedCount + 1)
                         else (m', deletedCount)))
                 (m, 0) (map fst m)
      of (m', deletedCount) \<Rightarrow> (deletedCount, m'))"

definition countYoutubeTranscriptChunks_fallback :: "string \<Rightarrow> docs \<Rightarrow> nat \<times> docs" where
  "countYoutubeTranscriptChunks_fallback pat m =
     (foldl (\<lambda>count (k, doc). if startsWith (doc_id doc) pat then count + 1 else count) 0 m, m)"

text \<open>A JavaScript \<open>Set\<close> of strings, in insertion order.\<close>

definition set_add :: "string \<Rightarrow> string list \<Rightarrow> string list" where
  "set_add x xs = (if x \<in> set xs then xs else xs @ [x])"

definition getUniqueDocumentNames_fallback :: "docs \<Rightarrow> string list \<times> docs" where
  "getUniqueDocumentNames_fallback m =
     (foldl (\<lambda>documentNames (k, doc).
               if doc_documentName doc \<noteq> [] then set_add (doc_documentName doc) documentNames
               else documentNames) [] m,
      m)"

definition getChunksByDocumentName_fallback :: "string \<Rightarrow> docs \<Rightarrow> SearchResult list \<times> docs" where
  "getChunksByDocumentName_fallback documentName m =
     (map (\<lambda>(k, doc). searchResult_of_doc doc (Some 1))
        (filter (\<lambda>(k, doc). doc_documentName doc = documentName) m),
      m)"

definition deleteChunksByIds_fallback :: "string list \<Rightarrow> docs \<Rightarrow> nat \<times> docs" where
  "deleteChunksByIds_fallback chunkIds m =
     (case foldl (\<lambda>(m', deletedCount) i.
                    if map_has m' i then (map_delete i m', deletedCount + 1)
                    else (m', deletedCount))
                 (m, 0) chunkIds
      of (m', deletedCount) \<Rightarrow> (deletedCount, m'))"

section \<open>The Qdrant client\<close>

text \<open>
  The client library and the server behind it are external. Every method is a parameter:
  a function of the server state \<open>'q\<close> that either rejects (\<open>Inl\<close>) or resolves
  (\<open>Inr\<close>). Each request the service issues is appended to \<open>calls\<close>.
\<close>

type_synonym err = string

datatype match = MatchText string bool | MatchValue string

datatype condition = Condition string match

datatype filter = Must "condition list" | Should "condition list"

datatype with_payload = PayloadAll | PayloadInclude "string list"

record payload =
  pay_id :: "string option"
  pay_documentName :: "string option"
  pay_content :: "string option"
  pay_enhancedContent :: "string option"
  pay_title :: "string option"
  pay_summary :: "string option"
  pay_sourceFile :: "string option"
  pay_domains :: "string list option"

record point_struct =
  ps_id :: string
  ps_vector :: "number list"
  ps_payload :: payload

record point =
  pt_id :: string
  pt_payload :: payload

record scored_point =
  sp_payload :: payload
  sp_score :: number

record scroll_response =
  points :: "point list"
  next_page_offset :: "string option"

datatype delete_selector = DeleteFilter filter | DeletePoints "string list"

datatype request =
    GetCollections
  | CreateCollection string nat string
  | CreatePayloadIndex string string string
  | Upsert string bool "point_struct list"
  | Search string "number list" int bool
  | Count string filter
  | Scroll string "filter option" with_payload nat "string option"
  | Delete string delete_selector bool

record 'q QdrantClient =
  q_getCollections :: "'q \<Rightarrow> (err + string list option) \<times> 'q"
  q_createCollection :: "string \<Rightarrow> nat \<Rightarrow> string \<Rightarrow> 'q \<Rightarrow> (err + unit) \<times> 'q"
  q_createPayloadIndex :: "string \<Rightarrow> string \<Rightarrow> string \<Rightarrow> 'q \<Rightarrow> (err + unit) \<times> 'q"
  q_upsert :: "string \<Rightarrow> bool \<Rightarrow> point_struct list \<Rightarrow> 'q \<Rightarrow> (err + unit) \<times> 'q"
  q_search :: "string \<Rightarrow> number list \<Rightarrow> int \<Rightarrow> bool \<Rightarrow> 'q \<Rightarrow> (err + scored_point list) \<times> 'q"
  q_count :: "string \<Rightarrow> filter \<Rightarrow> 'q \<Rightarrow> (err + nat) \<times> 'q"
  q_scroll :: "string \<Rightarrow> filter option \<Rightarrow> with_payload \<Rightarrow> nat \<Rightarrow> string option \<Rightarrow> 'q
                \<Rightarrow> (err + scroll_response) \<times> 'q"
  q_delete :: "string \<Rightarrow> delete_selector \<Rightarrow> bool \<Rightarrow> 'q \<Rightarrow> (err + unit) \<times> 'q"

text \<open>The configuration constants and \<open>uuidv4\<close> (the \<open>n\<close>-th identifier it hands out).\<close>

record 'q env =
  client :: "'q QdrantClient"
  COLLECTION_NAME :: string
  VECTOR_SIZE :: nat
  uuidv4 :: "nat \<Rightarrow> string"

record 'q conn =
  backend :: 'q
  calls :: "request list"
  uuid_count :: nat

text \<open>
  An \<open>async\<close> computation against the client: \<open>None\<close> when it never settles (a
  pagination loop that never ends), otherwise rejected or resolved, with the new state.
\<close>

type_synonym ('a, 'q) prim = "'q conn \<Rightarrow> ((err + 'a) \<times> 'q conn) option"

definition resolve :: "'a \<Rightarrow> ('a, 'q) prim" where
  "resolve v q = Some (Inr v, q)"

definition reject :: "err \<Rightarrow> ('a, 'q) prim" where
  "reject e q = Some (Inl e, q)"

definition andThen :: "('a, 'q) prim \<Rightarrow> ('a \<Rightarrow> ('b, 'q) prim) \<Rightarrow> ('b, 'q) prim" where
  "andThen m f q =
     (case m q of
        None \<Rightarrow> None
      | Some (Inl e, q') \<Rightarrow> Some (Inl e, q')
      | Some (Inr v, q') \<Rightarrow> f v q')"

definition tryCatch :: "('a, 'q) prim \<Rightarrow> (err \<Rightarrow> ('a, 'q) prim) \<Rightarrow> ('a, 'q) prim" where
  "tryCatch m handler q =
     (case m q of
        None \<Rightarrow> None
      | Some (Inl e, q') \<Rightarrow> handler e q'
      | Some (Inr v, q') \<Rightarrow> Some (Inr v, q'))"

definition issue :: "request \<Rightarrow> ('q \<Rightarrow> (err + 'a) \<times> 'q) \<Rightarrow> ('a, 'q) prim" where
  "issue req f q =
     (case f (backend q) of (r, b') \<Rightarrow> Some (r, q\<lparr> backend := b', calls := calls q @ [req] \<rparr>))"

definition call_getCollections :: "'q env \<Rightarrow> (string list option, 'q) prim" where
  "call_getCollections env = issue GetCollections (q_getCollections (client env))"

definition call_createCollection :: "'q env \<Rightarrow> nat \<Rightarrow> string \<Rightarrow> (unit, 'q) prim" where
  "call_createCollection env vsize distance =
     issue (CreateCollection (COLLECTION_NAME env) vsize distance)
       (q_createCollection (client env) (COLLECTION_NAME env) vsize distance)"

definition call_createPayloadIndex :: "'q env \<Rightarrow> string \<Rightarrow> string \<Rightarrow> (unit, 'q) prim" where
  "call_createPayloadIndex env field_name field_schema =
     issue (CreatePayloadIndex (COLLECTION_NAME env) field_name field_schema)
       (q_createPayloadIndex (client env) (COLLECTION_NAME env) field_name field_schema)"

definition call_upsert :: "'q env \<Rightarrow> bool \<Rightarrow> point_struct list \<Rightarrow> (unit, 'q) prim" where
  "call_upsert env wait pts =
     issue (Upsert (COLLECTION_NAME env) wait pts)
       (q_upsert (client env) (COLLECTION_NAME env) wait pts)"

definition call_search :: "'q env \<Rightarrow> number list \<Rightarrow> int \<Rightarrow> bool \<Rightarrow> (scored_point list, 'q) prim" where
  "call_search env v limit wp =
     issue (Search (COLLECTION_NAME env) v limit wp)
       (q_search (client env) (COLLECTION_NAME env) v limit wp)"

definition call_count :: "'q env \<Rightarrow> filter \<Rightarrow> (nat, 'q) prim" where
  "call_count env flt =
     issue (Count (COLLECTION_NAME env) flt) (q_count (client env) (COLLECTION_NAME env) flt)"

definition call_scroll :: "'q env \<Rightarrow> filter option \<Rightarrow> with_payload \<Rightarrow> nat \<Rightarrow> string option
    \<Rightarrow> (scroll_response, 'q) prim" where
  "call_scroll env flt wp limit offset =
     issue (Scroll (COLLECTION_NAME env) flt wp limit offset)
       (q_scroll (client env) (COLLECTION_NAME env) flt wp limit offset)"

definition call_delete :: "'q env \<Rightarrow> delete_selector \<Rightarrow> bool \<Rightarrow> (unit, 'q) prim" where
  "call_delete env sel wait =
     issue (Delete (COLLECTION_NAME env) sel wait)
       (q_delete (client env) (COLLECTION_NAME env) sel wait)"

text \<open>Truthiness of an optional string (\<open>undefined\<close> and \<open>""\<close> are falsy).\<close>

definition truthy :: "string option \<Rightarrow> bool" where
  "truthy v = (case v of None \<Rightarrow> False | Some s \<Rightarrow> s \<noteq> [])"

text \<open>\<open>payload.id && payload.id.startsWith(idPattern)\<close>.\<close>

definition payload_id_startsWith :: "string \<Rightarrow> point \<Rightarrow> bool" where
  "payload_id_startsWith pat p =
     (case pay_id (pt_payload p) of None \<Rightarrow> False | Some i \<Rightarrow> i \<noteq> [] \<and> startsWith i pat)"

text \<open>
  The pagination loop shared by four operations:
  \<open>do { response = await scroll({..., limit, offset: nextPageOffset}); body(response.points);
  nextPageOffset = response.next_page_offset } while (nextPageOffset)\<close> with \<open>limit = 100\<close>.
  The loop has no bound of its own: it ends when the server stops sending a cursor.
\<close>

partial_function (option) scroll_pages ::
  "'q env \<Rightarrow> filter option \<Rightarrow> with_payload \<Rightarrow> ('a \<Rightarrow> point list \<Rightarrow> 'a) \<Rightarrow> 'a \<Rightarrow> string option
     \<Rightarrow> 'q conn \<Rightarrow> ((err + 'a) \<times> 'q conn) option" where
  "scroll_pages env flt wp body acc nextPageOffset q =
     (case call_scroll env flt wp 100 nextPageOffset q of
        None \<Rightarrow> None
      | Some (Inl e, q') \<Rightarrow> Some (Inl e, q')
      | Some (Inr response, q') \<Rightarrow>
          (if truthy (next_page_offset response)
           then scroll_pages env flt wp body (body acc (points response))
                  (next_page_offset response) q'
           else Some (Inr (body acc (points response)), q')))"

text \<open>
  \<open>for (let i = 0; i < chunksToDelete.length; i += batchSize)\<close> with \<open>batchSize = 100\<close>.
\<close>

function delete_batches :: "'q env \<Rightarrow> string list \<Rightarrow> nat \<Rightarrow> nat \<Rightarrow> (nat, 'q) prim" where
  "delete_batches env chunksToDelete i deletedCount q =
     (if i < length chunksToDelete then
        (let batch = take 100 (drop i chunksToDelete) in
         case call_delete env (DeletePoints batch) True q of
           None \<Rightarrow> None
         | Some (Inl e, q') \<Rightarrow> Some (Inl e, q')
         | Some (Inr u, q') \<Rightarrow>
             delete_batches env chunksToDelete (i + 100) (deletedCount + length batch) q')
      else Some (Inr deletedCount, q))"
  by pat_completeness auto
termination
  by (relation "measure (\<lambda>(env, chunksToDelete, i, deletedCount, q). length chunksToDelete - i)") auto

section \<open>The fallback service (coordinator)\<close>

text \<open>
  Modelled from the spec: \<open>FallbackService\<close> (\<open>./fallback-service\<close>) is not among the
  sources. Section 4.1 of the specification gives its state (a degraded flag, default
  false, and the set of operation names already warned about) and its operations:
  \<open>execute\<close> (\<open>withFallback\<close>), \<open>resetWarning\<close> (\<open>resetWarningFlag\<close>), \<open>isDegraded\<close>
  (\<open>isFallbackActive\<close>); \<open>handleError\<close> is the failure branch of \<open>execute\<close> (section 4.4:
  a failed initialisation "routes through the same Coordinator mechanism").
  \<open>warnings\<close> lists the operation names for which a warning was emitted.
\<close>

record FallbackService =
  fallbackActive :: bool
  warningLogged :: "string set"
  warnings :: "string list"

definition new_FallbackService :: FallbackService where
  "new_FallbackService = \<lparr> fallbackActive = False, warningLogged = {}, warnings = [] \<rparr>"

definition handleError :: "string \<Rightarrow> err \<Rightarrow> FallbackService \<Rightarrow> FallbackService" where
  "handleError operation e fs =
     \<lparr> fallbackActive = True,
       warningLogged = insert operation (warningLogged fs),
       warnings = (if operation \<in> warningLogged fs then warnings fs
                   else warnings fs @ [operation]) \<rparr>"

definition resetWarningFlag :: "string \<Rightarrow> FallbackService \<Rightarrow> FallbackService" where
  "resetWarningFlag operation fs = fs\<lparr> warningLogged := warningLogged fs - {operation} \<rparr>"

definition isFallbackActive :: "FallbackService \<Rightarrow> bool" where
  "isFallbackActive fs = fallbackActive fs"

section \<open>The database service\<close>

text \<open>
  The state of the process: the coordinator, the module-level \<open>inMemoryDocuments\<close> and the
  connection to Qdrant. A fallback closure reads and writes \<open>inMemoryDocuments\<close> only; a
  Qdrant closure uses the client (and \<open>uuidv4\<close>) only.
\<close>

record 'q DatabaseService =
  fallbackService :: FallbackService
  inMemoryDocuments :: docs
  qdrantClient :: "'q conn"

definition new_DatabaseService :: "'q \<Rightarrow> 'q DatabaseService" where
  "new_DatabaseService b =
     \<lparr> fallbackService = new_FallbackService,
       inMemoryDocuments = [],
       qdrantClient = \<lparr> backend = b, calls = [], uuid_count = 0 \<rparr> \<rparr>"

definition run_fallback :: "(docs \<Rightarrow> 'a \<times> docs) \<Rightarrow> 'q DatabaseService \<Rightarrow> 'a \<times> 'q DatabaseService" where
  "run_fallback fallbackFn s =
     (case fallbackFn (inMemoryDocuments s) of (r, m') \<Rightarrow> (r, s\<lparr> inMemoryDocuments := m' \<rparr>))"

text \<open>Modelled from the spec: \<open>execute(operationName, fallbackFn, primaryFn, forceFallback)\<close>
  of section 4.1.\<close>

definition withFallback :: "string \<Rightarrow> (docs \<Rightarrow> 'a \<times> docs) \<Rightarrow> ('a, 'q) prim \<Rightarrow> bool
    \<Rightarrow> 'q DatabaseService \<Rightarrow> ('a \<times> 'q DatabaseService) option" where
  "withFallback operation fallbackFn primaryFn forceFallback s =
     (if forceFallback \<or> fallbackActive (fallbackService s) then Some (run_fallback fallbackFn s)
      else
        (case primaryFn (qdrantClient s) of
           None \<Rightarrow> None
         | Some (Inr v, q') \<Rightarrow> Some (v, s\<lparr> qdrantClient := q' \<rparr>)
         | Some (Inl e, q') \<Rightarrow>
             Some (run_fallback fallbackFn
                     (s\<lparr> qdrantClient := q',
                        fallbackService := handleError operation e (fallbackService s) \<rparr>))))"

subsection \<open>The Qdrant closures\<close>

definition initialize_qdrant :: "'q env \<Rightarrow> (unit, 'q) prim" where
  "initialize_qdrant env =
     andThen (call_getCollections env) (\<lambda>collections.
       let collectionExists =
             (case collections of None \<Rightarrow> False
              | Some cs \<Rightarrow> list_ex (\<lambda>name. name = COLLECTION_NAME env) cs)
       in
       if \<not> collectionExists then
         andThen (call_createCollection env (VECTOR_SIZE env) ''Cosine'') (\<lambda>_.
         andThen (call_createPayloadIndex env ''documentName'' ''keyword'') (\<lambda>_.
         andThen (call_createPayloadIndex env ''title'' ''keyword'') (\<lambda>_.
         call_createPayloadIndex env ''domains'' ''keyword'')))
       else resolve ())"

definition payload_of_doc :: "DocumentChunk \<Rightarrow> payload" where
  "payload_of_doc doc =
     \<lparr> pay_id = Some (doc_id doc),
       pay_documentName = Some (doc_documentName doc),
       pay_content = Some (doc_content doc),
       pay_enhancedContent = doc_enhancedContent doc,
       pay_title = doc_title doc,
       pay_summary = doc_summary doc,
       pay_sourceFile = doc_sourceFile doc,
       pay_domains = doc_domains doc \<rparr>"

definition addDocumentChunks_qdrant :: "'q env \<Rightarrow> DocumentChunk list \<Rightarrow> (unit, 'q) prim" where
  "addDocumentChunks_qdrant env documents =
     (if length documents = 0 then resolve ()
      else (\<lambda>q.
        let pts = map (\<lambda>(i, doc). \<lparr> ps_id = uuidv4 env (uuid_count q + i),
                                     ps_vector = doc_embedding doc,
                                     ps_payload = payload_of_doc doc \<rparr>)
                    (enumerate 0 documents)
        in andThen (call_upsert env True pts) (\<lambda>_. resolve ())
             (q\<lparr> uuid_count := uuid_count q + length documents \<rparr>)))"

text \<open>\<open>payload.domains || ['default']\<close> and the other fields of a result built from a
  payload.\<close>

definition searchResult_of_payload :: "payload \<Rightarrow> number \<Rightarrow> SearchResult" where
  "searchResult_of_payload p sc =
     \<lparr> res_id = pay_id p,
       res_documentName = pay_documentName p,
       res_content = pay_content p,
       res_enhancedContent = pay_enhancedContent p,
       res_title = pay_title p,
       res_summary = pay_summary p,
       res_sourceFile = pay_sourceFile p,
       res_domains = Some (case pay_domains p of None \<Rightarrow> [''default''] | Some d \<Rightarrow> d),
       res_score = Some sc \<rparr>"

definition searchByVector_qdrant :: "'q env \<Rightarrow> number list \<Rightarrow> int \<Rightarrow> (SearchResult list, 'q) prim" where
  "searchByVector_qdrant env queryVector limit =
     andThen (call_search env queryVector limit True) (\<lambda>results.
       resolve (map (\<lambda>hit. searchResult_of_payload (sp_payload hit) (sp_score hit)) results))"

definition id_text_filter :: "string \<Rightarrow> filter" where
  "id_text_filter pat = Must [Condition ''id'' (MatchText pat False)]"

definition doesTranscriptExist_qdrant :: "'q env \<Rightarrow> string \<Rightarrow> (bool, 'q) prim" where
  "doesTranscriptExist_qdrant env videoId =
     tryCatch
       (andThen (call_count env (id_text_filter (idPattern videoId))) (\<lambda>count.
          resolve (count > 0)))
       (\<lambda>error.
          tryCatch
            (andThen (call_scroll env (Some (id_text_filter (idPattern videoId))) PayloadAll 1 None)
               (\<lambda>results. resolve (length (points results) > 0)))
            (\<lambda>scrollFilterError.
               tryCatch
                 (andThen (call_scroll env None PayloadAll 100 None) (\<lambda>allResults.
                    resolve (list_ex (payload_id_startsWith (idPattern videoId))
                               (points allResults))))
                 (\<lambda>scrollError. resolve False)))"

definition collect_matching_ids :: "string \<Rightarrow> string list \<Rightarrow> point list \<Rightarrow> string list" where
  "collect_matching_ids pat chunksToDelete pts =
     chunksToDelete @ map pt_id (filter (payload_id_startsWith pat) pts)"

definition deleteYoutubeTranscriptChunks_qdrant :: "'q env \<Rightarrow> string \<Rightarrow> (nat, 'q) prim" where
  "deleteYoutubeTranscriptChunks_qdrant env videoId =
     tryCatch
       (andThen (call_count env (id_text_filter (idPattern videoId))) (\<lambda>count.
          if count = 0 then resolve 0
          else andThen (call_delete env (DeleteFilter (id_text_filter (idPattern videoId))) True)
                 (\<lambda>_. resolve count)))
       (\<lambda>error.
          tryCatch
            (andThen
               (scroll_pages env None PayloadAll (collect_matching_ids (idPattern videoId)) [] None)
               (\<lambda>chunksToDelete.
                  if length chunksToDelete = 0 then resolve 0
                  else delete_batches env chunksToDelete 0 0))
            (\<lambda>fallbackError. reject error))"

definition count_matching_ids :: "string \<Rightarrow> nat \<Rightarrow> point list \<Rightarrow> nat" where
  "count_matching_ids pat count pts = count + length (filter (payload_id_startsWith pat) pts)"

definition countYoutubeTranscriptChunks_qdrant :: "'q env \<Rightarrow> string \<Rightarrow> (nat, 'q) prim" where
  "countYoutubeTranscriptChunks_qdrant env videoId =
     tryCatch
       (call_count env (id_text_filter (idPattern videoId)))
       (\<lambda>error.
          tryCatch
            (scroll_pages env None PayloadAll (count_matching_ids (idPattern videoId)) 0 None)
            (\<lambda>scrollError. reject error))"

definition add_documentNames :: "string list \<Rightarrow> point list \<Rightarrow> string list" where
  "add_documentNames documentNames pts =
     foldl (\<lambda>ns p. case pay_documentName (pt_payload p) of
                      None \<Rightarrow> ns
                    | Some n \<Rightarrow> if n \<noteq> [] then set_add n ns else ns)
       documentNames pts"

definition getUniqueDocumentNames_qdrant :: "'q env \<Rightarrow> (string list, 'q) prim" where
  "getUniqueDocumentNames_qdrant env =
     tryCatch
       (scroll_pages env None (PayloadInclude [''documentName'']) add_documentNames [] None)
       (\<lambda>error. resolve [])"

definition documentName_filter :: "string \<Rightarrow> filter" where
  "documentName_filter documentName = Must [Condition ''documentName'' (MatchValue documentName)]"

definition push_results :: "SearchResult list \<Rightarrow> point list \<Rightarrow> SearchResult list" where
  "push_results chunks pts = chunks @ map (\<lambda>p. searchResult_of_payload (pt_payload p) 1) pts"

definition getChunksByDocumentName_qdrant :: "'q env \<Rightarrow> string \<Rightarrow> (SearchResult list, 'q) prim" where
  "getChunksByDocumentName_qdrant env documentName =
     tryCatch
       (scroll_pages env (Some (documentName_filter documentName)) PayloadAll push_results [] None)
       (\<lambda>error. resolve [])"

definition ids_filter :: "string list \<Rightarrow> filter" where
  "ids_filter chunkIds = Should (map (\<lambda>i. Condition ''id'' (MatchValue i)) chunkIds)"

definition deleteChunksByIds_qdrant :: "'q env \<Rightarrow> string list \<Rightarrow> (nat, 'q) prim" where
  "deleteChunksByIds_qdrant env chunkIds =
     (if length chunkIds = 0 then resolve 0
      else
        tryCatch
          (andThen (call_count env (ids_filter chunkIds)) (\<lambda>pointCount.
             if pointCount = 0 then resolve 0
             else andThen (call_delete env (DeleteFilter (ids_filter chunkIds)) True)
                    (\<lambda>_. resolve pointCount)))
          (\<lambda>error. resolve 0))"

subsection \<open>The public operations\<close>

definition initialize :: "'q env \<Rightarrow> 'q DatabaseService \<Rightarrow> 'q DatabaseService option" where
  "initialize env s =
     (case initialize_qdrant env (qdrantClient s) of
        None \<Rightarrow> None
      | Some (Inr u, q') \<Rightarrow>
          Some (s\<lparr> qdrantClient := q',
                   fallbackService := resetWarningFlag ''initialize'' (fallbackService s) \<rparr>)
      | Some (Inl e, q') \<Rightarrow>
          Some (s\<lparr> qdrantClient := q',
                   fallbackService := handleError ''initialize'' e (fallbackService s) \<rparr>))"

definition addDocumentChunks :: "'q env \<Rightarrow> DocumentChunk list \<Rightarrow> 'q DatabaseService
    \<Rightarrow> (unit \<times> 'q DatabaseService) option" where
  "addDocumentChunks env documents s =
     withFallback ''addDocumentChunks''
       (addDocumentChunks_fallback documents)
       (addDocumentChunks_qdrant env documents)
       (isFallbackActive (fallbackService s)) s"

definition searchByVector :: "'q env \<Rightarrow> number list \<Rightarrow> int \<Rightarrow> 'q DatabaseService
    \<Rightarrow> (SearchResult list \<times> 'q DatabaseService) option" where
  "searchByVector env queryVector limit s =
     withFallback ''searchByVector''
       (searchByVector_fallback queryVector limit)
       (searchByVector_qdrant env queryVector limit)
       (isFallbackActive (fallbackService s)) s"

definition doesTranscriptExist :: "'q env \<Rightarrow> string \<Rightarrow> 'q DatabaseService
    \<Rightarrow> (bool \<times> 'q DatabaseService) option" where
  "doesTranscriptExist env videoId s =
     withFallback ''doesTranscriptExist''
       (doesTranscriptExist_fallback (idPattern videoId))
       (doesTranscriptExist_qdrant env videoId)
       (isFallbackActive (fallbackService s)) s"

definition deleteYoutubeTranscriptChunks :: "'q env \<Rightarrow> string \<Rightarrow> 'q DatabaseService
    \<Rightarrow> (nat \<times> 'q DatabaseService) option" where
  "deleteYoutubeTranscriptChunks env videoId s =
     withFallback ''deleteYoutubeTranscriptChunks''
       (deleteYoutubeTranscriptChunks_fallback (idPattern videoId))
       (deleteYoutubeTranscriptChunks_qdrant env videoId)
       (isFallbackActive (fallbackService s)) s"

definition countYoutubeTranscriptChunks :: "'q env \<Rightarrow> string \<Rightarrow> 'q DatabaseService
    \<Rightarrow> (nat \<times> 'q DatabaseService) option" where
  "countYoutubeTranscriptChunks env videoId s =
     withFallback ''countYoutubeTranscriptChunks''
       (countYoutubeTranscriptChunks_fallback (idPattern videoId))
       (countYoutubeTranscriptChunks_qdrant env videoId)
       (isFallbackActive (fallbackService s)) s"

definition getUniqueDocumentNames :: "'q env \<Rightarrow> 'q DatabaseService
    \<Rightarrow> (string list \<times> 'q DatabaseService) option" where
  "getUniqueDocumentNames env s =
     withFallback ''getUniqueDocumentNames''
       getUniqueDocumentNames_fallback
       (getUniqueDocumentNames_qdrant env)
       (isFallbackActive (fallbackService s)) s"

definition getChunksByDocumentName :: "'q env \<Rightarrow> string \<Rightarrow> 'q DatabaseService
    \<Rightarrow> (SearchResult list \<times> 'q DatabaseService) option" where
  "getChunksByDocumentName env documentName s =
     withFallback ''getChunksByDocumentName''
       (getChunksByDocumentName_fallback documentName)
       (getChunksByDocumentName_qdrant env documentName)
       (isFallbackActive (fallbackService s)) s"

definition deleteChunksByIds :: "'q env \<Rightarrow> string list \<Rightarrow> 'q DatabaseService
    \<Rightarrow> (nat \<times> 'q DatabaseService) option" where
  "deleteChunksByIds env chunkIds s =
     withFallback ''deleteChunksByIds''
       (deleteChunksByIds_fallback chunkIds)
       (deleteChunksByIds_qdrant env chunkIds)
       (isFallbackActive (fallbackService s)) s"

section \<open>Concrete clients for evaluation\<close>

text \<open>
  Two stand-ins for the external server, used where a statement is evaluated on concrete
  input. \<open>down_client\<close> is an unreachable server: every request is rejected.
\<close>

definition down_client :: "unit QdrantClient" where
  "down_client =
     \<lparr> q_getCollections = (\<lambda>b. (Inl ''ECONNREFUSED'', b)),
       q_createCollection = (\<lambda>name vsize distance b. (Inl ''ECONNREFUSED'', b)),
       q_createPayloadIndex = (\<lambda>name field_name field_schema b. (Inl ''ECONNREFUSED'', b)),
       q_upsert = (\<lambda>name wait pts b. (Inl ''ECONNREFUSED'', b)),
       q_search = (\<lambda>name v limit wp b. (Inl ''ECONNREFUSED'', b)),
       q_count = (\<lambda>name flt b. (Inl ''ECONNREFUSED'', b)),
       q_scroll = (\<lambda>name flt wp limit offset b. (Inl ''ECONNREFUSED'', b)),
       q_delete = (\<lambda>name sel wait b. (Inl ''ECONNREFUSED'', b)) \<rparr>"

definition down_env :: "unit env" where
  "down_env =
     \<lparr> client = down_client, COLLECTION_NAME = ''knowledge_base'', VECTOR_SIZE = 768,
       uuidv4 = (\<lambda>n. replicate (Suc n) CHR ''u'') \<rparr>"

text \<open>
  \<open>memory_client\<close> keeps the collection as a list of points. It answers exact-value
  filters always and text-match filters only when \<open>srv_text_match\<close> is set (otherwise it
  rejects them); a scroll returns at most \<open>limit\<close> points from the cursor on and the id
  of the next point as the next cursor.
\<close>

record server =
  srv_points :: "point list"
  srv_text_match :: bool

definition field_of :: "string \<Rightarrow> payload \<Rightarrow> string option" where
  "field_of key p =
     (if key = ''id'' then pay_id p
      else if key = ''documentName'' then pay_documentName p
      else None)"

fun condition_holds :: "condition \<Rightarrow> payload \<Rightarrow> bool" where
  "condition_holds (Condition key (MatchValue v)) p = (field_of key p = Some v)"
| "condition_holds (Condition key (MatchText t exact)) p =
     (case field_of key p of None \<Rightarrow> False | Some x \<Rightarrow> startsWith x t)"

fun filter_holds :: "filter \<Rightarrow> payload \<Rightarrow> bool" where
  "filter_holds (Must cs) p = list_all (\<lambda>c. condition_holds c p) cs"
| "filter_holds (Should cs) p = list_ex (\<lambda>c. condition_holds c p) cs"

fun condition_is_text :: "condition \<Rightarrow> bool" where
  "condition_is_text (Condition key (MatchText t exact)) = True"
| "condition_is_text (Condition key (MatchValue v)) = False"

fun filter_is_text :: "filter \<Rightarrow> bool" where
  "filter_is_text (Must cs) = list_ex condition_is_text cs"
| "filter_is_text (Should cs) = list_ex condition_is_text cs"

definition filter_rejected :: "filter option \<Rightarrow> server \<Rightarrow> bool" where
  "filter_rejected flt b =
     (case flt of None \<Rightarrow> False | Some f \<Rightarrow> filter_is_text f \<and> \<not> srv_text_match b)"

definition selected :: "filter option \<Rightarrow> server \<Rightarrow> point list" where
  "selected flt b =
     (case flt of None \<Rightarrow> srv_points b
      | Some f \<Rightarrow> filter (\<lambda>p. filter_holds f (pt_payload p)) (srv_points b))"

definition memory_scroll :: "string \<Rightarrow> filter option \<Rightarrow> with_payload \<Rightarrow> nat \<Rightarrow> string option
    \<Rightarrow> server \<Rightarrow> (err + scroll_response) \<times> server" where
  "memory_scroll name flt wp limit offset b =
     (if filter_rejected flt b then (Inl ''text match is not supported'', b)
      else
        (let from_cursor =
               (case offset of None \<Rightarrow> selected flt b
                | Some off \<Rightarrow> dropWhile (\<lambda>p. pt_id p \<noteq> off) (selected flt b))
         in (Inr \<lparr> points = take limit from_cursor,
                    next_page_offset =
                      (case drop limit from_cursor of [] \<Rightarrow> None | p # ps \<Rightarrow> Some (pt_id p)) \<rparr>,
             b)))"

definition memory_count :: "string \<Rightarrow> filter \<Rightarrow> server \<Rightarrow> (err + nat) \<times> server" where
  "memory_count name flt b =
     (if filter_rejected (Some flt) b then (Inl ''text match is not supported'', b)
      else (Inr (length (selected (Some flt) b)), b))"

definition memory_delete :: "string \<Rightarrow> delete_selector \<Rightarrow> bool \<Rightarrow> server \<Rightarrow> (err + unit) \<times> server" where
  "memory_delete name sel wait b =
     (case sel of
        DeleteFilter f \<Rightarrow>
          if filter_rejected (Some f) b then (Inl ''text match is not supported'', b)
          else (Inr (), b\<lparr> srv_points :=
                              filter (\<lambda>p. \<not> filter_holds f (pt_payload p)) (srv_points b) \<rparr>)
      | DeletePoints ids \<Rightarrow>
          (Inr (), b\<lparr> srv_points := filter (\<lambda>p. pt_id p \<notin> set ids) (srv_points b) \<rparr>))"

definition memory_upsert :: "string \<Rightarrow> bool \<Rightarrow> point_struct list \<Rightarrow> server \<Rightarrow> (err + unit) \<times> server" where
  "memory_upsert name wait pts b =
     (Inr (), b\<lparr> srv_points :=
                    srv_points b @ map (\<lambda>p. \<lparr> pt_id = ps_id p, pt_payload = ps_payload p \<rparr>) pts \<rparr>)"

definition memory_client :: "server QdrantClient" where
  "memory_client =
     \<lparr> q_getCollections = (\<lambda>b. (Inr (Some [''knowledge_base'']), b)),
       q_createCollection = (\<lambda>name vsize distance b. (Inr (), b)),
       q_createPayloadIndex = (\<lambda>name field_name field_schema b. (Inr (), b)),
       q_upsert = memory_upsert,
       q_search = (\<lambda>name v limit wp b. (Inr [], b)),
       q_count = memory_count,
       q_scroll = memory_scroll,
       q_delete = memory_delete \<rparr>"

definition memory_env :: "server env" where
  "memory_env =
     \<lparr> client = memory_client, COLLECTION_NAME = ''knowledge_base'', VECTOR_SIZE = 768,
       uuidv4 = (\<lambda>n. replicate (Suc n) CHR ''u'') \<rparr>"

text \<open>A chunk with the given id, document name, domains and embedding.\<close>

definition chunk :: "string \<Rightarrow> string \<Rightarrow> string list option \<Rightarrow> number list \<Rightarrow> DocumentChunk" where
  "chunk i name doms e =
     \<lparr> doc_id = i, doc_documentName = name, doc_content = ''text'',
       doc_enhancedContent = None, doc_title = None, doc_summary = None,
       doc_sourceFile = None, doc_domains = doms, doc_embedding = e \<rparr>"

text \<open>A service whose coordinator is already degraded, over an unreachable server.\<close>

definition degraded_service :: "docs \<Rightarrow> unit DatabaseService" where
  "degraded_service m =
     \<lparr> fallbackService = \<lparr> fallbackActive = True, warningLogged = {''initialize''},
                            warnings = [''initialize''] \<rparr>,
       inMemoryDocuments = m,
       qdrantClient = \<lparr> backend = (), calls = [GetCollections], uuid_count = 0 \<rparr> \<rparr>"

text \<open>Three chunks with embeddings of two components, one of them the zero vector.\<close>

definition store3 :: docs where
  "store3 =
     [(''a'', chunk ''a'' ''A.pdf'' None [3, 4]),
      (''b'', chunk ''b'' ''B.pdf'' None [1, 0]),
      (''c'', chunk ''c'' ''C.pdf'' None [0, 0])]"

text \<open>Five chunks without \<open>domains\<close>, three of one document and two of another.\<close>

definition store5 :: docs where
  "store5 =
     [(''c1'', chunk ''c1'' ''A.pdf'' None [3, 4]),
      (''c2'', chunk ''c2'' ''A.pdf'' None [3, 4]),
      (''c3'', chunk ''c3'' ''B.pdf'' None [3, 4]),
      (''c4'', chunk ''c4'' ''A.pdf'' None [3, 4]),
      (''c5'', chunk ''c5'' ''B.pdf'' None [3, 4])]"

text \<open>The three records of the scenario of section 8, under the ids it gives, and under
  ids that carry the \<open>youtube_\<close> prefix.\<close>

definition scenario_docs :: "DocumentChunk list" where
  "scenario_docs =
     [chunk ''doc1_0'' ''one.pdf'' None [3, 4],
      chunk ''doc1_1'' ''one.pdf'' None [3, 4],
      chunk ''doc2_0'' ''two.pdf'' None [3, 4]]"

definition scenario_store :: docs where
  "scenario_store = map (\<lambda>d. (doc_id d, d)) scenario_docs"

definition youtube_docs :: "DocumentChunk list" where
  "youtube_docs =
     [chunk ''youtube_doc1_0'' ''one.pdf'' None [3, 4],
      chunk ''youtube_doc1_1'' ''one.pdf'' None [3, 4],
      chunk ''youtube_doc2_0'' ''two.pdf'' None [3, 4]]"

text \<open>
  The state of a fresh service over an unreachable server after one call
  \<open>addDocumentChunks([a])\<close>: the upsert was sent and rejected, the coordinator is
  degraded, the chunk is in the in-memory store.
\<close>

definition after_failure :: "unit DatabaseService" where
  "after_failure =
     \<lparr> fallbackService = \<lparr> fallbackActive = True, warningLogged = {''addDocumentChunks''},
                            warnings = [''addDocumentChunks''] \<rparr>,
       inMemoryDocuments = [(''a'', chunk ''a'' ''A.pdf'' None [3, 4])],
       qdrantClient =
         \<lparr> backend = (),
           calls = [Upsert ''knowledge_base'' True
                      [\<lparr> ps_id = ''u'', ps_vector = [3, 4],
                         ps_payload = payload_of_doc (chunk ''a'' ''A.pdf'' None [3, 4]) \<rparr>]],
           uuid_count = 1 \<rparr> \<rparr>"

text \<open>A server holding two points, of two documents, that rejects text-match filters.\<close>

definition srv2 :: server where
  "srv2 =
     \<lparr> srv_points =
         [\<lparr> pt_id = ''u1'', pt_payload = payload_of_doc (chunk ''youtube_v1_0'' ''A.pdf'' None [3, 4]) \<rparr>,
          \<lparr> pt_id = ''u2'', pt_payload = payload_of_doc (chunk ''youtube_v2_0'' ''B.pdf'' None [1, 0]) \<rparr>],
       srv_text_match = False \<rparr>"

text \<open>The same server with text-match filters supported.\<close>

definition srv2_text :: server where
  "srv2_text = srv2\<lparr> srv_text_match := True \<rparr>"

text \<open>
  A collection of 101 points on a server that rejects text-match filters: a hundred
  points of other sources, then one transcript chunk of the video \<open>v9\<close>.
\<close>

definition filler :: "nat \<Rightarrow> point" where
  "filler n =
     \<lparr> pt_id = replicate (Suc n) CHR ''p'',
       pt_payload = payload_of_doc (chunk (''other_'' @ replicate n CHR ''x'') ''O.pdf'' None [3, 4]) \<rparr>"

definition target :: point where
  "target =
     \<lparr> pt_id = ''target'',
       pt_payload = payload_of_doc (chunk ''youtube_v9_0'' ''V.pdf'' None [3, 4]) \<rparr>"

definition srv101 :: server where
  "srv101 = \<lparr> srv_points = map filler [0..<100] @ [target], srv_text_match = False \<rparr>"

section \<open>Notions used in the statements\<close>



text \<open>
  A call of a public operation, as a value, so that statements can range over arbitrary
  sequences of calls; \<open>perform\<close> dispatches to the operation itself, \<open>local_answer\<close> is
  what its fallback closure computes on the in-memory store alone.
\<close>

datatype operation =
    Initialize
  | AddDocumentChunks "DocumentChunk list"
  | SearchByVector "number list" int
  | DoesTranscriptExist string
  | DeleteYoutubeTranscriptChunks string
  | CountYoutubeTranscriptChunks string
  | GetUniqueDocumentNames
  | GetChunksByDocumentName string
  | DeleteChunksByIds "string list"

datatype outcome =
    Void
  | Results "SearchResult list"
  | Flag bool
  | Number nat
  | Names "string list"

definition returning :: "('a \<Rightarrow> outcome) \<Rightarrow> ('a \<times> 's) option \<Rightarrow> (outcome \<times> 's) option" where
  "returning tag r = (case r of None \<Rightarrow> None | Some (v, s') \<Rightarrow> Some (tag v, s'))"

fun perform :: "'q env \<Rightarrow> operation \<Rightarrow> 'q DatabaseService \<Rightarrow> (outcome \<times> 'q DatabaseService) option" where
  "perform env Initialize s =
     (case initialize env s of None \<Rightarrow> None | Some s' \<Rightarrow> Some (Void, s'))"
| "perform env (AddDocumentChunks documents) s =
     returning (\<lambda>u. Void) (addDocumentChunks env documents s)"
| "perform env (SearchByVector queryVector limit) s =
     returning Results (searchByVector env queryVector limit s)"
| "perform env (DoesTranscriptExist videoId) s =
     returning Flag (doesTranscriptExist env videoId s)"
| "perform env (DeleteYoutubeTranscriptChunks videoId) s =
     returning Number (deleteYoutubeTranscriptChunks env videoId s)"
| "perform env (CountYoutubeTranscriptChunks videoId) s =
     returning Number (countYoutubeTranscriptChunks env videoId s)"
| "perform env GetUniqueDocumentNames s =
     returning Names (getUniqueDocumentNames env s)"
| "perform env (GetChunksByDocumentName documentName) s =
     returning Results (getChunksByDocumentName env documentName s)"
| "perform env (DeleteChunksByIds chunkIds) s =
     returning Number (deleteChunksByIds env chunkIds s)"

fun perform_all :: "'q env \<Rightarrow> operation list \<Rightarrow> 'q DatabaseService
    \<Rightarrow> (outcome list \<times> 'q DatabaseService) option" where
  "perform_all env [] s = Some ([], s)"
| "perform_all env (c # cs) s =
     (case perform env c s of
        None \<Rightarrow> None
      | Some (r, s') \<Rightarrow>
          (case perform_all env cs s' of None \<Rightarrow> None | Some (rs, s'') \<Rightarrow> Some (r # rs, s'')))"

definition tagged :: "('a \<Rightarrow> outcome) \<Rightarrow> 'a \<times> docs \<Rightarrow> outcome \<times> docs" where
  "tagged tag r = (case r of (v, m') \<Rightarrow> (tag v, m'))"

fun local_answer :: "operation \<Rightarrow> docs \<Rightarrow> outcome \<times> docs" where
  "local_answer Initialize m = (Void, m)"
| "local_answer (AddDocumentChunks documents) m =
     tagged (\<lambda>u. Void) (addDocumentChunks_fallback documents m)"
| "local_answer (SearchByVector queryVector limit) m =
     tagged Results (searchByVector_fallback queryVector limit m)"
| "local_answer (DoesTranscriptExist videoId) m =
     tagged Flag (doesTranscriptExist_fallback (idPattern videoId) m)"
| "local_answer (DeleteYoutubeTranscriptChunks videoId) m =
     tagged Number (deleteYoutubeTranscriptChunks_fallback (idPattern videoId) m)"
| "local_answer (CountYoutubeTranscriptChunks videoId) m =
     tagged Number (countYoutubeTranscriptChunks_fallback (idPattern videoId) m)"
| "local_answer GetUniqueDocumentNames m =
     tagged Names (getUniqueDocumentNames_fallback m)"
| "local_answer (GetChunksByDocumentName documentName) m =
     tagged Results (getChunksByDocumentName_fallback documentName m)"
| "local_answer (DeleteChunksByIds chunkIds) m =
     tagged Number (deleteChunksByIds_fallback chunkIds m)"

fun local_answers :: "operation list \<Rightarrow> docs \<Rightarrow> outcome list \<times> docs" where
  "local_answers [] m = ([], m)"
| "local_answers (c # cs) m =
     (case local_answer c m of (r, m') \<Rightarrow>
        (case local_answers cs m' of (rs, m'') \<Rightarrow> (r # rs, m'')))"

text \<open>The requests \<open>initialize\<close> issues.\<close>

fun is_bootstrap :: "request \<Rightarrow> bool" where
  "is_bootstrap GetCollections = True"
| "is_bootstrap (CreateCollection name vsize distance) = True"
| "is_bootstrap (CreatePayloadIndex name field_name field_schema) = True"
| "is_bootstrap r = False"

text \<open>A computation that always settles and issues only requests satisfying \<open>ok\<close>.\<close>

definition issues_only :: "(request \<Rightarrow> bool) \<Rightarrow> ('a, 'q) prim \<Rightarrow> bool" where
  "issues_only ok m =
     (\<forall>q. \<exists>r q' extra. m q = Some (r, q') \<and> calls q' = calls q @ extra \<and> list_all ok extra)"

section \<open>Cosine similarity\<close>

lemma cosine_loop_sums:
  "length a = length b \<Longrightarrow>
   cosine_loop a b (d, x, y) = (d + dot a b, x + (\<Sum>u\<leftarrow>a. u * u), y + (\<Sum>u\<leftarrow>b. u * u))"
  by (induction a b arbitrary: d x y rule: list_induct2) (simp_all add: dot_def)

lemma sum_sq_nonneg: "0 \<le> (\<Sum>u\<leftarrow>(a::real list). u * u)"
  by (induction a) simp_all

text \<open>The code computes the textbook quotient, and every division it performs has a
  non-zero divisor.\<close>

lemma cosineSimilarity_eq:
  "cosineSimilarity a b =
     Some (if length a \<noteq> length b \<or> magnitude a = 0 \<or> magnitude b = 0 then 0
           else dot a b / (magnitude a * magnitude b))"
proof -
  have a: "\<not> (\<Sum>u\<leftarrow>a. u * u) < 0" and b: "\<not> (\<Sum>u\<leftarrow>b. u * u) < 0"
    using sum_sq_nonneg [of a] sum_sq_nonneg [of b] by simp_all
  show ?thesis
    by (simp add: cosineSimilarity_def cosine_loop_sums magnitude_def js_sqrt_def js_divide_def a b)
qed



text \<open>
  C7. For every pair of vectors of which one (or both) has zero magnitude, the cosine
  similarity of the in-memory store is exactly 0: a finite number, obtained without
  dividing by zero.
\<close>

theorem cosineSimilarity_zero_magnitude:
  "magnitude a = 0 \<or> magnitude b = 0 \<Longrightarrow> cosineSimilarity a b = Some 0"
  by (auto simp: cosineSimilarity_eq)

theorem cosineSimilarity_zero_magnitude_witness:
  "(magnitude [0, 0] = 0 \<or> magnitude [3, 4] = 0) \<and> cosineSimilarity [0, 0] [3, 4] = Some 0"
proof -
  have h: "magnitude [0, 0] = 0 \<or> magnitude [3, 4] = 0"
    by (simp add: magnitude_def)
  show ?thesis
    using h cosineSimilarity_zero_magnitude [OF h] by simp
qed







section \<open>The coordinator and the in-memory search\<close>



lemma length_insert_by: "length (insert_by cmp x ys) = Suc (length ys)"
  by (induction ys) auto

lemma length_js_sort: "length (js_sort cmp xs) = length xs"
  by (induction xs) (simp_all add: js_sort_def length_insert_by)













lemma sqrt25: "sqrt 25 = 5"
  by (rule real_sqrt_unique) simp_all


lemma cos_aa: "cosineSimilarity [3, 4] [3, 4] = Some 1"
  by (simp add: cosineSimilarity_def js_sqrt_def js_divide_def sqrt25)






section \<open>Binary64 evaluation\<close>

text \<open>The integer square root is the floor of the square root.\<close>

lemma bits_bound: "n < 2 ^ bits n"
proof (induction n rule: bits.induct)
  case (1 n)
  show ?case
  proof (cases "n = 0")
    case True
    then show ?thesis by (simp add: bits.simps)
  next
    case False
    with 1 have "n div 2 < 2 ^ bits (n div 2)" by simp
    then have "n < 2 * 2 ^ bits (n div 2)" by linarith
    with False show ?thesis by (subst bits.simps) simp
  qed
qed

lemma isqrt_loop_bounds:
  "r * r \<le> n \<Longrightarrow> n < (r + 2 ^ k) * (r + 2 ^ k) \<Longrightarrow>
   isqrt_loop k r n * isqrt_loop k r n \<le> n \<and> n < (isqrt_loop k r n + 1) * (isqrt_loop k r n + 1)"
proof (induction k arbitrary: r)
  case 0
  then show ?case by (simp add: isqrt_loop.simps)
next
  case (Suc k)
  show ?case
  proof (cases "(r + 2 ^ k) * (r + 2 ^ k) \<le> n")
    case True
    have "n < (r + 2 ^ k + 2 ^ k) * (r + 2 ^ k + 2 ^ k)"
      using Suc.prems(2) by (simp add: algebra_simps)
    from Suc.IH [OF True this] True show ?thesis
      by (subst (1 2 3 4) isqrt_loop.simps) simp
  next
    case False
    then have "n < (r + 2 ^ k) * (r + 2 ^ k)" by simp
    from Suc.IH [OF Suc.prems(1) this] False show ?thesis
      by (subst (1 2 3 4) isqrt_loop.simps) simp
  qed
qed

lemma isqrt_bounds: "isqrt n * isqrt n \<le> n \<and> n < (isqrt n + 1) * (isqrt n + 1)"
proof -
  let ?k = "(bits n + 1) div 2"
  have "bits n \<le> 2 * ?k" by simp
  then have "(2::nat) ^ bits n \<le> 2 ^ (2 * ?k)" by (rule power_increasing) simp
  with bits_bound [of n] have "n < 2 ^ (2 * ?k)" by linarith
  then have "n < (0 + 2 ^ ?k) * (0 + 2 ^ ?k)"
    by (simp add: power2_eq_square [symmetric] power_mult [symmetric] mult.commute)
  with isqrt_loop_bounds [of 0 n ?k] show ?thesis by (simp add: isqrt_def)
qed

lemma isqrt_eqI:
  assumes "r * r \<le> n" and "n < (r + 1) * (r + 1)"
  shows "isqrt n = r"
proof -
  let ?s = "isqrt n"
  from isqrt_bounds [of n] have s: "?s * ?s \<le> n" "n < (?s + 1) * (?s + 1)" by simp_all
  have "\<not> ?s < r"
  proof
    assume "?s < r"
    then have "?s + 1 \<le> r" by arith
    from mult_le_mono [OF this this] have "(?s + 1) * (?s + 1) \<le> r * r" .
    with s(2) assms(1) show False by simp
  qed
  moreover have "\<not> r < ?s"
  proof
    assume "r < ?s"
    then have "r + 1 \<le> ?s" by arith
    from mult_le_mono [OF this this] have "(r + 1) * (r + 1) \<le> ?s * ?s" .
    with s(1) assms(2) show False by simp
  qed
  ultimately show ?thesis by simp
qed



lemma isqrt_3: "isqrt 17538019647970835018444217992595396235871190515712 = 4187841884308770678786792"
  by (rule isqrt_eqI) simp_all

lemma isqrt_25: "isqrt 9134385233318143238773030204476768872849578393600 = 3022314549036572936765440"
  by (rule isqrt_eqI) simp_all



lemmas double_eval = js_int_def round_int_def round_double_def round_at_def round_up_def carry_def
  finish_def bits.simps round_root_def sqrt_scaled_def
  round_quotient_def cosine_quotient_def cosineSimilarity_binary64_def dsub_def

lemma one_binary64: "js_int 1 = Finite 4503599627370496 (- 52)"
  by (simp add: double_eval)



lemma cos64_111_111:
  "cosineSimilarity_binary64 (map js_int [1, 1, 1]) (map js_int [1, 1, 1]) = Finite 4503599627370497 (- 52)"
  by (simp add: double_eval isqrt_3)

lemma cos64_34_34:
  "cosineSimilarity_binary64 (map js_int [3, 4]) (map js_int [3, 4]) = Finite 4503599627370496 (- 52)"
  by (simp add: double_eval isqrt_25)

text \<open>Where a guard decides, the two arithmetics agree: vectors of different lengths
  and a vector of zeros have similarity 0 in binary64 as well.\<close>

lemma cosineSimilarity_binary64_length_mismatch:
  "length a \<noteq> length b \<Longrightarrow> cosineSimilarity_binary64 a b = Finite 0 0"
  by (simp add: cosineSimilarity_binary64_def)

lemma dmul_zero: "is_zero x \<Longrightarrow> dmul x x = Finite 0 0"
  by (cases x) (simp_all add: round_double_def)

lemma round_int_zero: "round_int 0 e = Finite 0 0"
  by (simp add: round_int_def round_double_def)

lemma cosine_loop_binary64_zero_left:
  "length a = length b \<Longrightarrow> list_all is_zero a \<Longrightarrow>
   fst (snd (cosine_loop_binary64 a b (d, Finite 0 0, bm))) = Finite 0 0"
  by (induction a b arbitrary: d bm rule: list_induct2) (simp_all add: dmul_zero round_int_zero)

lemma cosine_loop_binary64_zero_right:
  "length a = length b \<Longrightarrow> list_all is_zero b \<Longrightarrow>
   snd (snd (cosine_loop_binary64 a b (d, am, Finite 0 0))) = Finite 0 0"
  by (induction a b arbitrary: d am rule: list_induct2) (simp_all add: dmul_zero round_int_zero)

lemma cosineSimilarity_binary64_zero_vector:
  assumes "list_all is_zero a \<or> list_all is_zero b"
  shows "cosineSimilarity_binary64 a b = Finite 0 0"
proof (cases "length a = length b")
  case False
  then show ?thesis by (simp add: cosineSimilarity_binary64_def)
next
  case True
  obtain d am bm where l: "cosine_loop_binary64 a b (Finite 0 0, Finite 0 0, Finite 0 0) = (d, am, bm)"
    by (cases "cosine_loop_binary64 a b (Finite 0 0, Finite 0 0, Finite 0 0)")
  from assms have "am = Finite 0 0 \<or> bm = Finite 0 0"
    using cosine_loop_binary64_zero_left [OF True, of "Finite 0 0" "Finite 0 0"]
      cosine_loop_binary64_zero_right [OF True, of "Finite 0 0" "Finite 0 0"] l
    by auto
  then have "is_zero (dsqrt am) \<or> is_zero (dsqrt bm)" by auto
  with True l show ?thesis
    by (simp add: cosineSimilarity_binary64_def cosine_quotient_def)
qed

section \<open>Exact copies in binary64\<close>




section \<open>Pagination and the chunks of a document\<close>

text \<open>An invariant of the accumulator holds of what the pagination loop returns.\<close>

lemma scroll_pages_invariant_aux:
  assumes run: "scroll_pages env flt wp body acc off q = Some y"
  shows "(\<forall>a pts. P a \<longrightarrow> P (body a pts)) \<longrightarrow> P acc \<longrightarrow> (\<forall>r q'. y = (Inr r, q') \<longrightarrow> P r)"
proof (rule scroll_pages.raw_induct
    [where P = "\<lambda>env flt wp body acc off q y.
       (\<forall>a pts. P a \<longrightarrow> P (body a pts)) \<longrightarrow> P acc \<longrightarrow> (\<forall>r q'. y = (Inr r, q') \<longrightarrow> P r)",
     OF _ run], goal_cases)
  case (1 sp env flt wp body acc off q y)
  show ?case
  proof (intro impI allI)
    fix r q'
    assume step: "\<forall>a pts. P a \<longrightarrow> P (body a pts)" and start: "P acc" and y: "y = (Inr r, q')"
    from start step have next_ok: "\<And>pts. P (body acc pts)" by blast
    show "P r"
    proof (cases "call_scroll env flt wp 100 off q")
      case None
      with 1(2) show ?thesis by simp
    next
      case (Some z)
      obtain o' q1 where z: "z = (o', q1)" by (cases z)
      show ?thesis
      proof (cases o')
        case (Inl e)
        with 1(2) Some z y show ?thesis by simp
      next
        case (Inr response)
        show ?thesis
        proof (cases "truthy (next_page_offset response)")
          case True
          with 1(2) Some z Inr
          have "sp env flt wp body (body acc (points response)) (next_page_offset response) q1 = Some y"
            by simp
          from 1(1) [OF this] step next_ok y show ?thesis by blast
        next
          case False
          with 1(2) Some z Inr y have "r = body acc (points response)" by simp
          with next_ok show ?thesis by simp
        qed
      qed
    qed
  qed
qed

lemma scroll_pages_invariant:
  assumes run: "scroll_pages env flt wp body acc off q = Some (Inr r, q')"
    and start: "P acc"
    and step: "\<And>a pts. P a \<Longrightarrow> P (body a pts)"
  shows "P r"
  using scroll_pages_invariant_aux [OF run, of P] start step by blast


lemma push_results_scores:
  "\<forall>x\<in>set chunks. res_score x = Some 1 \<Longrightarrow> \<forall>x\<in>set (push_results chunks pts). res_score x = Some 1"
  by (auto simp: push_results_def searchResult_of_payload_def)

lemma getChunksByDocumentName_qdrant_scores:
  assumes "getChunksByDocumentName_qdrant env documentName q = Some (Inr results, q')"
  shows "\<forall>x\<in>set results. res_score x = Some 1"
proof (cases "scroll_pages env (Some (documentName_filter documentName)) PayloadAll push_results [] None q")
  case None
  with assms show ?thesis by (simp add: getChunksByDocumentName_qdrant_def tryCatch_def)
next
  case (Some y)
  obtain o' q1 where y: "y = (o', q1)" by (cases y)
  show ?thesis
  proof (cases o')
    case (Inl e)
    with assms Some y show ?thesis
      by (simp add: getChunksByDocumentName_qdrant_def tryCatch_def resolve_def)
  next
    case (Inr r)
    with Some y have run: "scroll_pages env (Some (documentName_filter documentName)) PayloadAll
        push_results [] None q = Some (Inr r, q1)" by simp
    have "\<forall>x\<in>set r. res_score x = Some 1"
      by (rule scroll_pages_invariant [OF run]) (simp_all add: push_results_scores)
    moreover from assms run have "results = r"
      by (simp add: getChunksByDocumentName_qdrant_def tryCatch_def)
    ultimately show ?thesis by simp
  qed
qed

lemma getChunksByDocumentName_fallback_scores:
  "\<forall>x\<in>set (fst (getChunksByDocumentName_fallback documentName m)). res_score x = Some 1"
  by (auto simp: getChunksByDocumentName_fallback_def searchResult_of_doc_def)


lemmas prim_defs = resolve_def reject_def andThen_def tryCatch_def issue_def
lemmas call_defs = call_getCollections_def call_createCollection_def call_createPayloadIndex_def
  call_upsert_def call_search_def call_count_def call_scroll_def call_delete_def

lemma getChunks_fallback_run:
  "getChunksByDocumentName down_env ''A.pdf'' (degraded_service store3) =
     Some ([searchResult_of_doc (chunk ''a'' ''A.pdf'' None [3, 4]) (Some 1)], degraded_service store3)"
  by (simp add: getChunksByDocumentName_def withFallback_def degraded_service_def run_fallback_def
      getChunksByDocumentName_fallback_def store3_def isFallbackActive_def chunk_def)

lemma getChunks_primary_run:
  "getChunksByDocumentName memory_env ''A.pdf'' (new_DatabaseService srv2) =
     Some ([searchResult_of_payload (payload_of_doc (chunk ''youtube_v1_0'' ''A.pdf'' None [3, 4])) 1],
           (new_DatabaseService srv2)
             \<lparr> qdrantClient :=
                 \<lparr> backend = srv2,
                   calls = [Scroll ''knowledge_base'' (Some (documentName_filter ''A.pdf''))
                              PayloadAll 100 None],
                   uuid_count = 0 \<rparr> \<rparr>)"
  by (simp add: getChunksByDocumentName_def withFallback_def new_DatabaseService_def
      new_FallbackService_def isFallbackActive_def getChunksByDocumentName_qdrant_def
      prim_defs call_defs scroll_pages.simps memory_env_def memory_client_def memory_scroll_def
      filter_rejected_def selected_def srv2_def documentName_filter_def field_of_def
      payload_of_doc_def chunk_def truthy_def push_results_def)


text \<open>
  C10, as the code has it. Every result that \<open>getChunksByDocumentName\<close> returns,
  whichever path answered, has score exactly 1.0. The constant is a value that the
  computed cosine similarity takes as well (1.0 for \<open>[3, 4]\<close> against itself), so such
  a result cannot be told from that match by its score.
\<close>

theorem getChunksByDocumentName_score_is_one:
  assumes "getChunksByDocumentName env documentName s = Some (results, s')"
  shows "(\<forall>x\<in>set results. res_score x = Some 1) \<and>
         cosineSimilarity_binary64 (map js_int [3, 4]) (map js_int [3, 4]) = js_int 1"
proof -
  have fb: "\<And>t rs t'. run_fallback (getChunksByDocumentName_fallback documentName) t = (rs, t')
              \<Longrightarrow> \<forall>x\<in>set rs. res_score x = Some 1"
    using getChunksByDocumentName_fallback_scores
    by (auto simp: run_fallback_def split: prod.splits) (metis fst_conv)
  have "\<forall>x\<in>set results. res_score x = Some 1"
  proof (cases "isFallbackActive (fallbackService s)")
    case True
    with assms fb show ?thesis
      by (auto simp: getChunksByDocumentName_def withFallback_def isFallbackActive_def)
  next
    case False
    with assms show ?thesis
      using fb getChunksByDocumentName_qdrant_scores [of env documentName "qdrantClient s"]
      by (auto simp: getChunksByDocumentName_def withFallback_def isFallbackActive_def
          split: option.splits sum.splits prod.splits)
  qed
  moreover have "cosineSimilarity_binary64 (map js_int [3, 4]) (map js_int [3, 4]) = js_int 1"
    by (simp only: cos64_34_34 one_binary64)
  ultimately show ?thesis by blast
qed

theorem getChunksByDocumentName_score_is_one_witness:
  "getChunksByDocumentName down_env ''A.pdf'' (degraded_service store3) =
     Some ([searchResult_of_doc (chunk ''a'' ''A.pdf'' None [3, 4]) (Some 1)], degraded_service store3) \<and>
   res_score (searchResult_of_doc (chunk ''a'' ''A.pdf'' None [3, 4]) (Some 1)) = Some 1 \<and>
   fst (the (getChunksByDocumentName memory_env ''A.pdf'' (new_DatabaseService srv2))) =
     [searchResult_of_payload (payload_of_doc (chunk ''youtube_v1_0'' ''A.pdf'' None [3, 4])) 1] \<and>
   res_score (searchResult_of_payload (payload_of_doc (chunk ''youtube_v1_0'' ''A.pdf'' None [3, 4])) 1)
     = Some 1 \<and>
   cosineSimilarity_binary64 (map js_int [3, 4]) (map js_int [3, 4]) = js_int 1"
proof -
  have a: "res_score (searchResult_of_doc (chunk ''a'' ''A.pdf'' None [3, 4]) (Some 1)) = Some 1"
    using getChunksByDocumentName_score_is_one [OF getChunks_fallback_run] by simp
  have b: "res_score (searchResult_of_payload
             (payload_of_doc (chunk ''youtube_v1_0'' ''A.pdf'' None [3, 4])) 1) = Some 1"
    using getChunksByDocumentName_score_is_one [OF getChunks_primary_run] by simp
  have c: "cosineSimilarity_binary64 (map js_int [3, 4]) (map js_int [3, 4]) = js_int 1"
    using getChunksByDocumentName_score_is_one [OF getChunks_fallback_run] by (rule conjunct2)
  have d: "fst (the (getChunksByDocumentName memory_env ''A.pdf'' (new_DatabaseService srv2))) =
     [searchResult_of_payload (payload_of_doc (chunk ''youtube_v1_0'' ''A.pdf'' None [3, 4])) 1]"
    by (simp only: getChunks_primary_run option.sel fst_conv)
  from a b c d getChunks_fallback_run show ?thesis by (intro conjI)
qed

lemma above_one:
  "dsub (Finite 4503599627370497 (- 52)) (Finite 4503599627370496 (- 52)) =
     Finite 4503599627370496 (- 104)"
  by (simp add: dsub_def round_int_def round_double_def round_at_def round_up_def carry_def
      finish_def bits.simps)

text \<open>
  C10 as stated fails in the arithmetic the code runs on: 1.0 is not the largest score
  the code computes. For \<open>[1, 1, 1]\<close> against itself \<open>cosineSimilarity\<close> returns
  1.0000000000000002 (that is \<open>4503599627370497 * 2 ^ - 52\<close>), which exceeds the constant
  1.0 by \<open>2 ^ - 52\<close>.
\<close>

theorem sentinel_counterexample:
  "js_int 1 = Finite 4503599627370496 (- 52) \<and>
   cosineSimilarity_binary64 (map js_int [1, 1, 1]) (map js_int [1, 1, 1]) =
     Finite 4503599627370497 (- 52) \<and>
   dsub (cosineSimilarity_binary64 (map js_int [1, 1, 1]) (map js_int [1, 1, 1])) (js_int 1) =
     Finite 4503599627370496 (- 104) \<and>
   comparator_sign (Finite 4503599627370496 (- 104)) = Some 4503599627370496"
  using one_binary64 cos64_111_111 above_one by simp

section \<open>Empty arguments\<close>

lemma run_fallback_same:
  "fallbackFn (inMemoryDocuments s) = (r, inMemoryDocuments s) \<Longrightarrow> run_fallback fallbackFn s = (r, s)"
  by (simp add: run_fallback_def)

text \<open>
  C9. \<open>addDocumentChunks\<close> with an empty list of records and \<open>deleteChunksByIds\<close> with an
  empty list of ids succeed, returning nothing and 0, and leave the whole state as it
  was: the in-memory store, the coordinator and the log of requests sent to Qdrant.
\<close>

theorem empty_arguments_are_noops:
  "addDocumentChunks env [] s = Some ((), s) \<and> deleteChunksByIds env [] s = Some (0, s)"
proof
  show "addDocumentChunks env [] s = Some ((), s)"
    by (simp add: addDocumentChunks_def withFallback_def isFallbackActive_def run_fallback_def
        addDocumentChunks_fallback_def addDocumentChunks_qdrant_def resolve_def)
  show "deleteChunksByIds env [] s = Some (0, s)"
    by (simp add: deleteChunksByIds_def withFallback_def isFallbackActive_def run_fallback_def
        deleteChunksByIds_fallback_def deleteChunksByIds_qdrant_def resolve_def)
qed

theorem empty_arguments_are_noops_witness:
  "addDocumentChunks memory_env [] (new_DatabaseService srv2) = Some ((), new_DatabaseService srv2) \<and>
   deleteChunksByIds memory_env [] (new_DatabaseService srv2) = Some (0, new_DatabaseService srv2) \<and>
   calls (qdrantClient (new_DatabaseService srv2)) = [] \<and>
   addDocumentChunks down_env [] (degraded_service store3) = Some ((), degraded_service store3) \<and>
   deleteChunksByIds down_env [] (degraded_service store3) = Some (0, degraded_service store3)"
  using empty_arguments_are_noops [of memory_env "new_DatabaseService srv2"]
    empty_arguments_are_noops [of down_env "degraded_service store3"]
  by (simp add: new_DatabaseService_def)


section \<open>The degraded flag\<close>

lemma issues_only_issue: "ok req \<Longrightarrow> issues_only ok (issue req f)"
  by (auto simp: issues_only_def issue_def split: prod.splits)

lemma issues_only_resolve: "issues_only ok (resolve v)"
  by (simp add: issues_only_def resolve_def)

lemma issues_only_andThen:
  assumes m: "issues_only ok m" and f: "\<And>v. issues_only ok (f v)"
  shows "issues_only ok (andThen m f)"
  unfolding issues_only_def
proof
  fix q
  from m obtain r q1 e1 where m1: "m q = Some (r, q1)" "calls q1 = calls q @ e1" "list_all ok e1"
    unfolding issues_only_def by blast
  show "\<exists>r q' extra. andThen m f q = Some (r, q') \<and> calls q' = calls q @ extra \<and> list_all ok extra"
  proof (cases r)
    case (Inl e)
    with m1 show ?thesis by (auto simp: andThen_def)
  next
    case (Inr v)
    from f [of v] obtain r2 q2 e2 where
      f2: "f v q1 = Some (r2, q2)" "calls q2 = calls q1 @ e2" "list_all ok e2"
      unfolding issues_only_def by blast
    with m1 Inr have "andThen m f q = Some (r2, q2)" "calls q2 = calls q @ (e1 @ e2)"
      "list_all ok (e1 @ e2)"
      by (simp_all add: andThen_def)
    then show ?thesis by blast
  qed
qed

lemma initialize_qdrant_bootstrap: "issues_only is_bootstrap (initialize_qdrant env)"
  unfolding initialize_qdrant_def call_getCollections_def call_createCollection_def
    call_createPayloadIndex_def Let_def
  by (intro issues_only_andThen issues_only_issue issues_only_resolve) 
     (auto intro!: issues_only_andThen issues_only_issue issues_only_resolve)


lemma initialize_keeps_degraded:
  assumes "fallbackActive (fallbackService s)"
  shows "\<exists>s' extra. initialize env s = Some s' \<and> fallbackActive (fallbackService s') \<and>
           inMemoryDocuments s' = inMemoryDocuments s \<and>
           calls (qdrantClient s') = calls (qdrantClient s) @ extra \<and> list_all is_bootstrap extra"
proof -
  from initialize_qdrant_bootstrap [of env] obtain r q' extra where
    run: "initialize_qdrant env (qdrantClient s) = Some (r, q')"
      "calls q' = calls (qdrantClient s) @ extra" "list_all is_bootstrap extra"
    unfolding issues_only_def by blast
  show ?thesis
  proof (cases r)
    case (Inl e)
    with run assms show ?thesis
      by (simp add: initialize_def handleError_def)
  next
    case (Inr u)
    with run assms show ?thesis
      by (simp add: initialize_def resetWarningFlag_def)
  qed
qed

lemma run_fallback_eq:
  "run_fallback fallbackFn s =
     (fst (fallbackFn (inMemoryDocuments s)),
      s\<lparr> inMemoryDocuments := snd (fallbackFn (inMemoryDocuments s)) \<rparr>)"
  by (simp add: run_fallback_def split: prod.splits)

lemma withFallback_degraded_eq:
  "fallbackActive (fallbackService s) \<Longrightarrow>
   withFallback operation fallbackFn primaryFn forceFallback s =
     Some (fst (fallbackFn (inMemoryDocuments s)),
           s\<lparr> inMemoryDocuments := snd (fallbackFn (inMemoryDocuments s)) \<rparr>)"
  by (simp add: withFallback_def run_fallback_eq)

lemmas facade_defs = addDocumentChunks_def searchByVector_def doesTranscriptExist_def
  deleteYoutubeTranscriptChunks_def countYoutubeTranscriptChunks_def getUniqueDocumentNames_def
  getChunksByDocumentName_def deleteChunksByIds_def

lemma perform_degraded:
  assumes "fallbackActive (fallbackService s)" and "c \<noteq> Initialize"
  shows "perform env c s =
           Some (fst (local_answer c (inMemoryDocuments s)),
                 s\<lparr> inMemoryDocuments := snd (local_answer c (inMemoryDocuments s)) \<rparr>)"
  using assms
  by (cases c)
     (simp_all add: facade_defs withFallback_degraded_eq returning_def tagged_def split: prod.splits)

lemma perform_step_degraded:
  assumes "fallbackActive (fallbackService s)"
  shows "\<exists>r s' extra. perform env c s = Some (r, s') \<and>
           (r, inMemoryDocuments s') = local_answer c (inMemoryDocuments s) \<and>
           fallbackActive (fallbackService s') \<and>
           calls (qdrantClient s') = calls (qdrantClient s) @ extra \<and> list_all is_bootstrap extra \<and>
           (c \<noteq> Initialize \<longrightarrow> qdrantClient s' = qdrantClient s \<and> fallbackService s' = fallbackService s)"
proof (cases "c = Initialize")
  case True
  with initialize_keeps_degraded [OF assms, of env] show ?thesis by auto
next
  case False
  have "calls (qdrantClient s) = calls (qdrantClient s) @ []" "list_all is_bootstrap []" by simp_all
  with perform_degraded [OF assms False, of env] assms False show ?thesis
    by (intro exI [of _ "fst (local_answer c (inMemoryDocuments s))"]
              exI [of _ "s\<lparr> inMemoryDocuments := snd (local_answer c (inMemoryDocuments s)) \<rparr>"]
              exI [of _ "[]"]) simp
qed

lemma perform_all_degraded:
  "fallbackActive (fallbackService s) \<Longrightarrow>
   \<exists>rs s' extra. perform_all env cs s = Some (rs, s') \<and>
     (rs, inMemoryDocuments s') = local_answers cs (inMemoryDocuments s) \<and>
     fallbackActive (fallbackService s') \<and>
     calls (qdrantClient s') = calls (qdrantClient s) @ extra \<and> list_all is_bootstrap extra \<and>
     (Initialize \<notin> set cs \<longrightarrow> qdrantClient s' = qdrantClient s \<and> fallbackService s' = fallbackService s)"
proof (induction cs arbitrary: s)
  case Nil
  then show ?case by simp
next
  case (Cons c cs)
  from perform_step_degraded [OF Cons.prems, of env c] obtain r s1 e1 where
    step: "perform env c s = Some (r, s1)"
      "(r, inMemoryDocuments s1) = local_answer c (inMemoryDocuments s)"
      "fallbackActive (fallbackService s1)"
      "calls (qdrantClient s1) = calls (qdrantClient s) @ e1" "list_all is_bootstrap e1"
      "c \<noteq> Initialize \<longrightarrow> qdrantClient s1 = qdrantClient s \<and> fallbackService s1 = fallbackService s"
    by blast
  from Cons.IH [OF step(3)] obtain rs s2 e2 where
    rest: "perform_all env cs s1 = Some (rs, s2)"
      "(rs, inMemoryDocuments s2) = local_answers cs (inMemoryDocuments s1)"
      "fallbackActive (fallbackService s2)"
      "calls (qdrantClient s2) = calls (qdrantClient s1) @ e2" "list_all is_bootstrap e2"
      "Initialize \<notin> set cs \<longrightarrow> qdrantClient s2 = qdrantClient s1 \<and> fallbackService s2 = fallbackService s1"
    by blast
  have 1: "perform_all env (c # cs) s = Some (r # rs, s2)"
    using step(1) rest(1) by simp
  have 2: "(r # rs, inMemoryDocuments s2) = local_answers (c # cs) (inMemoryDocuments s)"
    using step(2) [symmetric] rest(2) [symmetric] by simp
  have 3: "calls (qdrantClient s2) = calls (qdrantClient s) @ (e1 @ e2)"
    using step(4) rest(4) by simp
  have 4: "list_all is_bootstrap (e1 @ e2)"
    using step(5) rest(5) by simp
  have 5: "Initialize \<notin> set (c # cs) \<longrightarrow>
           qdrantClient s2 = qdrantClient s \<and> fallbackService s2 = fallbackService s"
    using step(6) rest(6) by auto
  from 1 2 rest(3) 3 4 5 show ?case by blast
qed

text \<open>
  C1. Once the primary closure of any operation fails while the coordinator is not yet
  degraded, that call returns the answer of its fallback closure and sets the degraded
  flag. From then on every sequence of calls of the public operations, of whatever kind,
  is answered by the fallback closures on the in-memory store alone and the flag stays
  set; no request reaches Qdrant, apart from those of \<open>initialize\<close> itself when it is
  called again. In this model of the coordinator nothing clears the flag: a successful
  \<open>initialize\<close> resets a warning entry only.
\<close>

theorem degraded_flag_is_global:
  assumes "\<not> forceFallback" and "\<not> fallbackActive (fallbackService s)"
    and "primaryFn (qdrantClient s) = Some (Inl e, q')"
  shows "\<exists>r s1.
           withFallback operation fallbackFn primaryFn forceFallback s = Some (r, s1) \<and>
           (r, inMemoryDocuments s1) = fallbackFn (inMemoryDocuments s) \<and>
           qdrantClient s1 = q' \<and>
           fallbackActive (fallbackService s1) \<and>
           (\<forall>env cs. \<exists>rs s2 extra.
              perform_all env cs s1 = Some (rs, s2) \<and>
              (rs, inMemoryDocuments s2) = local_answers cs (inMemoryDocuments s1) \<and>
              fallbackActive (fallbackService s2) \<and>
              calls (qdrantClient s2) = calls (qdrantClient s1) @ extra \<and>
              list_all is_bootstrap extra \<and>
              (Initialize \<notin> set cs \<longrightarrow>
                 qdrantClient s2 = qdrantClient s1 \<and> fallbackService s2 = fallbackService s1))"
proof -
  let ?s0 = "s\<lparr> qdrantClient := q',
                 fallbackService := handleError operation e (fallbackService s) \<rparr>"
  let ?s1 = "?s0\<lparr> inMemoryDocuments := snd (fallbackFn (inMemoryDocuments s)) \<rparr>"
  have run: "withFallback operation fallbackFn primaryFn forceFallback s =
               Some (fst (fallbackFn (inMemoryDocuments s)), ?s1)"
    using assms by (simp add: withFallback_def run_fallback_eq)
  have flag: "fallbackActive (fallbackService ?s1)"
    by (simp add: handleError_def)
  have later: "\<forall>env cs. \<exists>rs s2 extra.
              perform_all env cs ?s1 = Some (rs, s2) \<and>
              (rs, inMemoryDocuments s2) = local_answers cs (inMemoryDocuments ?s1) \<and>
              fallbackActive (fallbackService s2) \<and>
              calls (qdrantClient s2) = calls (qdrantClient ?s1) @ extra \<and>
              list_all is_bootstrap extra \<and>
              (Initialize \<notin> set cs \<longrightarrow>
                 qdrantClient s2 = qdrantClient ?s1 \<and> fallbackService s2 = fallbackService ?s1)"
    using perform_all_degraded [OF flag] by blast
  show ?thesis
    apply (rule exI [of _ "fst (fallbackFn (inMemoryDocuments s))"])
    apply (rule exI [of _ ?s1])
    using run flag later by simp
qed


lemma chunk_sel:
  "doc_id (chunk i name doms e) = i"
  "doc_documentName (chunk i name doms e) = name"
  "doc_domains (chunk i name doms e) = doms"
  "doc_embedding (chunk i name doms e) = e"
  by (simp_all add: chunk_def)

lemma first_call_fails:
  "addDocumentChunks_qdrant down_env [chunk ''a'' ''A.pdf'' None [3, 4]]
     (qdrantClient (new_DatabaseService ())) = Some (Inl ''ECONNREFUSED'', qdrantClient after_failure)"
  by (simp add: addDocumentChunks_qdrant_def new_DatabaseService_def after_failure_def
      andThen_def issue_def call_upsert_def down_env_def down_client_def chunk_sel)

lemma first_call_run:
  "addDocumentChunks down_env [chunk ''a'' ''A.pdf'' None [3, 4]] (new_DatabaseService ()) =
     Some ((), after_failure)"
  by (simp add: addDocumentChunks_def withFallback_def first_call_fails isFallbackActive_def
      run_fallback_def addDocumentChunks_fallback_def handleError_def)
     (simp add: new_DatabaseService_def new_FallbackService_def after_failure_def chunk_def)

lemma later_calls_run:
  "perform_all down_env [SearchByVector [3, 4] 1, CountYoutubeTranscriptChunks ''v1''] after_failure =
     Some ([Results [searchResult_of_doc (chunk ''a'' ''A.pdf'' None [3, 4]) (Some 1)], Number 0],
           after_failure)"
  by (simp add: searchByVector_def countYoutubeTranscriptChunks_def withFallback_def
      isFallbackActive_def run_fallback_def returning_def after_failure_def
      searchByVector_fallback_def countYoutubeTranscriptChunks_fallback_def chunk_sel cos_aa
      js_sort_def slice0_def idPattern_def)

theorem degraded_flag_is_global_witness:
  "\<not> fallbackActive (fallbackService (new_DatabaseService ())) \<and>
   addDocumentChunks_qdrant down_env [chunk ''a'' ''A.pdf'' None [3, 4]]
     (qdrantClient (new_DatabaseService ())) = Some (Inl ''ECONNREFUSED'', qdrantClient after_failure) \<and>
   addDocumentChunks down_env [chunk ''a'' ''A.pdf'' None [3, 4]] (new_DatabaseService ()) =
     Some ((), after_failure) \<and>
   perform_all down_env [SearchByVector [3, 4] 1, CountYoutubeTranscriptChunks ''v1''] after_failure =
     Some ([Results [searchResult_of_doc (chunk ''a'' ''A.pdf'' None [3, 4]) (Some 1)], Number 0],
           after_failure) \<and>
   (\<exists>s2. perform_all down_env [Initialize, GetUniqueDocumentNames] after_failure =
            Some ([Void, Names [''A.pdf'']], s2) \<and> fallbackActive (fallbackService s2))"
proof -
  have h2: "\<not> fallbackActive (fallbackService (new_DatabaseService ()))"
    by (simp add: new_DatabaseService_def new_FallbackService_def)
  have h1: "\<not> False" by simp
  from degraded_flag_is_global
      [where forceFallback = False and s = "new_DatabaseService ()"
         and primaryFn = "addDocumentChunks_qdrant down_env [chunk ''a'' ''A.pdf'' None [3, 4]]"
         and operation = "''addDocumentChunks''"
         and fallbackFn = "addDocumentChunks_fallback [chunk ''a'' ''A.pdf'' None [3, 4]]",
       OF h1 h2 first_call_fails]
  obtain r s1 where
    run: "withFallback ''addDocumentChunks''
            (addDocumentChunks_fallback [chunk ''a'' ''A.pdf'' None [3, 4]])
            (addDocumentChunks_qdrant down_env [chunk ''a'' ''A.pdf'' None [3, 4]]) False
            (new_DatabaseService ()) = Some (r, s1)"
    and later: "\<And>env cs. \<exists>rs s2 extra.
              perform_all env cs s1 = Some (rs, s2) \<and>
              (rs, inMemoryDocuments s2) = local_answers cs (inMemoryDocuments s1) \<and>
              fallbackActive (fallbackService s2) \<and>
              calls (qdrantClient s2) = calls (qdrantClient s1) @ extra \<and>
              list_all is_bootstrap extra \<and>
              (Initialize \<notin> set cs \<longrightarrow>
                 qdrantClient s2 = qdrantClient s1 \<and> fallbackService s2 = fallbackService s1)"
    by blast
  from run first_call_run h2 have s1: "s1 = after_failure"
    by (simp add: addDocumentChunks_def isFallbackActive_def)
  from later [of down_env "[Initialize, GetUniqueDocumentNames]"] obtain rs s2 where
    l: "perform_all down_env [Initialize, GetUniqueDocumentNames] s1 = Some (rs, s2)"
       "(rs, inMemoryDocuments s2) = local_answers [Initialize, GetUniqueDocumentNames] (inMemoryDocuments s1)"
       "fallbackActive (fallbackService s2)"
    by blast
  have "local_answers [Initialize, GetUniqueDocumentNames] (inMemoryDocuments after_failure) =
          ([Void, Names [''A.pdf'']], inMemoryDocuments after_failure)"
    by (simp add: after_failure_def tagged_def getUniqueDocumentNames_fallback_def chunk_sel set_add_def)
  with l s1 have "\<exists>s2. perform_all down_env [Initialize, GetUniqueDocumentNames] after_failure =
            Some ([Void, Names [''A.pdf'']], s2) \<and> fallbackActive (fallbackService s2)"
    by auto
  with h2 first_call_fails first_call_run later_calls_run show ?thesis by (intro conjI)
qed


section \<open>Records without domains\<close>

text \<open>
  C4. With the in-memory store holding five records whose \<open>domains\<close> is absent, the
  fallback closures of \<open>getChunksByDocumentName\<close> and \<open>searchByVector\<close> return results
  whose \<open>domains\<close> is absent too, whereas the Qdrant closures turn the same record's
  payload into a result with \<open>domains = ["default"]\<close>.
\<close>

theorem fallback_results_keep_domains_absent:
  "getChunksByDocumentName down_env ''A.pdf'' (degraded_service store5) =
     Some ([searchResult_of_doc (chunk ''c1'' ''A.pdf'' None [3, 4]) (Some 1),
            searchResult_of_doc (chunk ''c2'' ''A.pdf'' None [3, 4]) (Some 1),
            searchResult_of_doc (chunk ''c4'' ''A.pdf'' None [3, 4]) (Some 1)],
           degraded_service store5) \<and>
   searchByVector down_env [3, 4] 1 (degraded_service store5) =
     Some ([searchResult_of_doc (chunk ''c1'' ''A.pdf'' None [3, 4]) (Some 1)],
           degraded_service store5) \<and>
   res_domains (searchResult_of_doc (chunk ''c1'' ''A.pdf'' None [3, 4]) (Some 1)) = None \<and>
   res_domains (searchResult_of_doc (chunk ''c2'' ''A.pdf'' None [3, 4]) (Some 1)) = None \<and>
   res_domains (searchResult_of_doc (chunk ''c4'' ''A.pdf'' None [3, 4]) (Some 1)) = None \<and>
   res_domains (searchResult_of_payload (payload_of_doc (chunk ''c1'' ''A.pdf'' None [3, 4])) 1) =
     Some [''default'']"
proof (intro conjI)
  show "getChunksByDocumentName down_env ''A.pdf'' (degraded_service store5) =
     Some ([searchResult_of_doc (chunk ''c1'' ''A.pdf'' None [3, 4]) (Some 1),
            searchResult_of_doc (chunk ''c2'' ''A.pdf'' None [3, 4]) (Some 1),
            searchResult_of_doc (chunk ''c4'' ''A.pdf'' None [3, 4]) (Some 1)],
           degraded_service store5)"
    by (simp add: getChunksByDocumentName_def withFallback_def degraded_service_def
        run_fallback_def getChunksByDocumentName_fallback_def store5_def isFallbackActive_def
        chunk_sel)
  show "searchByVector down_env [3, 4] 1 (degraded_service store5) =
     Some ([searchResult_of_doc (chunk ''c1'' ''A.pdf'' None [3, 4]) (Some 1)],
           degraded_service store5)"
    by (simp add: searchByVector_def withFallback_def degraded_service_def run_fallback_def
        searchByVector_fallback_def store5_def isFallbackActive_def chunk_sel cos_aa
        js_sort_def compare_scores_def searchResult_of_doc_def slice0_def)
qed (simp_all add: searchResult_of_doc_def searchResult_of_payload_def payload_of_doc_def chunk_sel)

section \<open>Embeddings of the wrong length\<close>

lemma map_get_map_set:
  "map_get (map_set k v m) k' = (if k' = k then Some v else map_get m k')"
  by (induction m) auto

lemma map_get_add:
  "map_get (foldl (\<lambda>m doc. map_set (doc_id doc) doc m) m documents) k =
     (case find (\<lambda>d. doc_id d = k) (rev documents) of None \<Rightarrow> map_get m k | Some d \<Rightarrow> Some d)"
  by (induction documents arbitrary: m rule: rev_induct) (simp_all add: map_get_map_set)

lemma stored_after_add:
  assumes "d \<in> set documents" and "distinct (map doc_id documents)"
  shows "map_get (foldl (\<lambda>m doc. map_set (doc_id doc) doc m) m documents) (doc_id d) = Some d"
proof -
  from assms have "find (\<lambda>x. doc_id x = doc_id d) (rev documents) = Some d"
  proof (induction documents rule: rev_induct)
    case Nil
    then show ?case by simp
  next
    case (snoc x xs)
    then show ?case by (auto simp: image_iff)
  qed
  then show ?thesis by (simp add: map_get_add)
qed

lemma cosineSimilarity_length_mismatch: "length a \<noteq> length b \<Longrightarrow> cosineSimilarity a b = Some 0"
  by (simp add: cosineSimilarity_def)

lemma addDocumentChunks_qdrant_sends_vectors:
  assumes "documents \<noteq> []"
  shows "\<exists>r q'. addDocumentChunks_qdrant env documents q = Some (r, q') \<and>
           calls q' = calls q @
             [Upsert (COLLECTION_NAME env) True
                (map (\<lambda>(i, doc). \<lparr> ps_id = uuidv4 env (uuid_count q + i),
                                     ps_vector = doc_embedding doc,
                                     ps_payload = payload_of_doc doc \<rparr>)
                   (enumerate 0 documents))]"
proof -
  let ?pts = "map (\<lambda>(i, doc). \<lparr> ps_id = uuidv4 env (uuid_count q + i),
                                     ps_vector = doc_embedding doc,
                                     ps_payload = payload_of_doc doc \<rparr>)
                (enumerate 0 documents)"
  obtain r0 b' where u: "q_upsert (client env) (COLLECTION_NAME env) True ?pts (backend q) = (r0, b')"
    by (cases "q_upsert (client env) (COLLECTION_NAME env) True ?pts (backend q)")
  show ?thesis
  proof (cases r0)
    case (Inl e)
    with u assms show ?thesis
      by (simp add: addDocumentChunks_qdrant_def andThen_def issue_def call_upsert_def Let_def)
  next
    case (Inr v)
    with u assms show ?thesis
      by (simp add: addDocumentChunks_qdrant_def andThen_def issue_def call_upsert_def Let_def
          resolve_def)
  qed
qed

text \<open>
  C5, as the code has it. A mismatch between the length of an embedding and
  \<open>VECTOR_SIZE\<close> is not detected by the service. On the fallback path
  \<open>addDocumentChunks\<close> stores every record, whatever the length of its embedding, and
  the search scores a stored embedding whose length differs from the query's as exactly
  0. On the Qdrant path the embeddings are handed to \<open>upsert\<close> unchanged and unchecked.
\<close>

theorem dimension_mismatch_is_not_checked:
  "(fallbackActive (fallbackService s) \<longrightarrow>
      (\<exists>s'. addDocumentChunks env documents s = Some ((), s') \<and>
         (distinct (map doc_id documents) \<longrightarrow>
            (\<forall>d\<in>set documents. map_get (inMemoryDocuments s') (doc_id d) = Some d)))) \<and>
   (length a \<noteq> length b \<longrightarrow> cosineSimilarity a b = Some 0) \<and>
   (documents \<noteq> [] \<longrightarrow>
      (\<exists>r q'. addDocumentChunks_qdrant env documents q = Some (r, q') \<and>
         calls q' = calls q @
           [Upsert (COLLECTION_NAME env) True
              (map (\<lambda>(i, doc). \<lparr> ps_id = uuidv4 env (uuid_count q + i),
                                   ps_vector = doc_embedding doc,
                                   ps_payload = payload_of_doc doc \<rparr>)
                 (enumerate 0 documents))]))"
proof (intro conjI impI)
  assume "fallbackActive (fallbackService s)"
  then have "addDocumentChunks env documents s =
      Some ((), s\<lparr> inMemoryDocuments :=
                     foldl (\<lambda>m doc. map_set (doc_id doc) doc m) (inMemoryDocuments s) documents \<rparr>)"
    by (simp add: addDocumentChunks_def withFallback_degraded_eq addDocumentChunks_fallback_def)
  then show "\<exists>s'. addDocumentChunks env documents s = Some ((), s') \<and>
         (distinct (map doc_id documents) \<longrightarrow>
            (\<forall>d\<in>set documents. map_get (inMemoryDocuments s') (doc_id d) = Some d))"
    by (simp add: stored_after_add)
next
  assume "length a \<noteq> length b"
  then show "cosineSimilarity a b = Some 0" by (rule cosineSimilarity_length_mismatch)
next
  assume "documents \<noteq> []"
  then show "\<exists>r q'. addDocumentChunks_qdrant env documents q = Some (r, q') \<and>
         calls q' = calls q @
           [Upsert (COLLECTION_NAME env) True
              (map (\<lambda>(i, doc). \<lparr> ps_id = uuidv4 env (uuid_count q + i),
                                   ps_vector = doc_embedding doc,
                                   ps_payload = payload_of_doc doc \<rparr>)
                 (enumerate 0 documents))]"
    by (rule addDocumentChunks_qdrant_sends_vectors)
qed

lemma mismatch_add_run:
  "addDocumentChunks down_env [chunk ''x'' ''X.pdf'' None [1, 2]] (degraded_service []) =
     Some ((), degraded_service [(''x'', chunk ''x'' ''X.pdf'' None [1, 2])])"
  by (simp add: addDocumentChunks_def withFallback_def degraded_service_def run_fallback_def
      addDocumentChunks_fallback_def isFallbackActive_def chunk_sel)

lemma mismatch_search_run:
  "searchByVector down_env [1, 2, 3] 10 (degraded_service [(''x'', chunk ''x'' ''X.pdf'' None [1, 2])]) =
     Some ([searchResult_of_doc (chunk ''x'' ''X.pdf'' None [1, 2]) (Some 0)],
           degraded_service [(''x'', chunk ''x'' ''X.pdf'' None [1, 2])])"
  by (simp add: searchByVector_def withFallback_def degraded_service_def run_fallback_def
      searchByVector_fallback_def isFallbackActive_def chunk_sel cosineSimilarity_def
      js_sort_def slice0_def)

text \<open>
  C5 as stated fails: with \<open>VECTOR_SIZE = 768\<close>, a record whose embedding has two
  components is stored without complaint, and a query of three components scores it 0.
\<close>

theorem dimension_mismatch_counterexample:
  "VECTOR_SIZE down_env = 768 \<and>
   length (doc_embedding (chunk ''x'' ''X.pdf'' None [1, 2])) = 2 \<and>
   addDocumentChunks down_env [chunk ''x'' ''X.pdf'' None [1, 2]] (degraded_service []) =
     Some ((), degraded_service [(''x'', chunk ''x'' ''X.pdf'' None [1, 2])]) \<and>
   searchByVector down_env [1, 2, 3] 10 (degraded_service [(''x'', chunk ''x'' ''X.pdf'' None [1, 2])]) =
     Some ([searchResult_of_doc (chunk ''x'' ''X.pdf'' None [1, 2]) (Some 0)],
           degraded_service [(''x'', chunk ''x'' ''X.pdf'' None [1, 2])])"
  using mismatch_add_run mismatch_search_run by (simp add: down_env_def chunk_sel)

theorem dimension_mismatch_is_not_checked_witness:
  "fallbackActive (fallbackService (degraded_service [])) \<and>
   distinct (map doc_id [chunk ''x'' ''X.pdf'' None [1, 2]]) \<and>
   length [1, 2 :: number] \<noteq> length [1, 2, 3 :: number] \<and>
   cosineSimilarity [1, 2] [1, 2, 3] = Some 0 \<and>
   (\<exists>s'. addDocumentChunks down_env [chunk ''x'' ''X.pdf'' None [1, 2]] (degraded_service []) =
            Some ((), s') \<and>
          map_get (inMemoryDocuments s') ''x'' = Some (chunk ''x'' ''X.pdf'' None [1, 2])) \<and>
   (\<exists>r q'. addDocumentChunks_qdrant down_env [chunk ''x'' ''X.pdf'' None [1, 2]]
              (qdrantClient (new_DatabaseService ())) = Some (r, q') \<and>
            calls q' =
              [Upsert ''knowledge_base'' True
                 [\<lparr> ps_id = ''u'', ps_vector = [1, 2],
                    ps_payload = payload_of_doc (chunk ''x'' ''X.pdf'' None [1, 2]) \<rparr>]])"
proof -
  have h1: "fallbackActive (fallbackService (degraded_service []))"
    by (simp add: degraded_service_def)
  have h2: "distinct (map doc_id [chunk ''x'' ''X.pdf'' None [1, 2]])" by simp
  have h3: "length [1, 2 :: number] \<noteq> length [1, 2, 3 :: number]" by simp
  have h4: "[chunk ''x'' ''X.pdf'' None [1, 2]] \<noteq> []" by simp
  note t = dimension_mismatch_is_not_checked
    [where s = "degraded_service []" and env = down_env
       and documents = "[chunk ''x'' ''X.pdf'' None [1, 2]]"
       and a = "[1, 2]" and b = "[1, 2, 3]" and q = "qdrantClient (new_DatabaseService ())"]
  from t h3 have c: "cosineSimilarity [1, 2] [1, 2, 3] = Some 0" by blast
  from t h1 h2 have a: "\<exists>s'. addDocumentChunks down_env [chunk ''x'' ''X.pdf'' None [1, 2]]
            (degraded_service []) = Some ((), s') \<and>
          map_get (inMemoryDocuments s') ''x'' = Some (chunk ''x'' ''X.pdf'' None [1, 2])"
    by (auto simp: chunk_sel)
  from t h4 have p: "\<exists>r q'. addDocumentChunks_qdrant down_env [chunk ''x'' ''X.pdf'' None [1, 2]]
              (qdrantClient (new_DatabaseService ())) = Some (r, q') \<and>
            calls q' =
              [Upsert ''knowledge_base'' True
                 [\<lparr> ps_id = ''u'', ps_vector = [1, 2],
                    ps_payload = payload_of_doc (chunk ''x'' ''X.pdf'' None [1, 2]) \<rparr>]]"
    by (simp add: new_DatabaseService_def down_env_def chunk_sel)
  from h1 h2 h3 c a p show ?thesis by (intro conjI)
qed


section \<open>The prefix scenario\<close>

lemma scenario_add_run:
  "addDocumentChunks down_env scenario_docs (degraded_service []) =
     Some ((), degraded_service scenario_store)"
  by (simp add: addDocumentChunks_def withFallback_def degraded_service_def run_fallback_def
      addDocumentChunks_fallback_def isFallbackActive_def scenario_docs_def scenario_store_def
      chunk_sel)

lemma scenario_count_run:
  "countYoutubeTranscriptChunks down_env ''doc1'' (degraded_service scenario_store) =
     Some (0, degraded_service scenario_store)"
  by (simp add: countYoutubeTranscriptChunks_def withFallback_def degraded_service_def
      run_fallback_def countYoutubeTranscriptChunks_fallback_def isFallbackActive_def
      scenario_docs_def scenario_store_def chunk_sel idPattern_def)

lemma scenario_delete_run:
  "deleteYoutubeTranscriptChunks down_env ''doc1'' (degraded_service scenario_store) =
     Some (0, degraded_service scenario_store)"
  by (simp add: deleteYoutubeTranscriptChunks_def withFallback_def degraded_service_def
      run_fallback_def deleteYoutubeTranscriptChunks_fallback_def isFallbackActive_def
      scenario_docs_def scenario_store_def chunk_sel idPattern_def)

lemma scenario_names_run:
  "getUniqueDocumentNames down_env (degraded_service scenario_store) =
     Some ([''one.pdf'', ''two.pdf''], degraded_service scenario_store)"
  by (simp add: getUniqueDocumentNames_def withFallback_def degraded_service_def
      run_fallback_def getUniqueDocumentNames_fallback_def isFallbackActive_def
      scenario_docs_def scenario_store_def chunk_sel set_add_def)

text \<open>
  C3 as stated fails: the operations build their pattern as \<open>youtube_\<close> followed by the
  argument, so on the ids \<open>doc1_0\<close>, \<open>doc1_1\<close>, \<open>doc2_0\<close> the count for \<open>doc1\<close> is 0, the
  deletion removes nothing and returns 0, and the name of the \<open>doc1\<close> records is still
  listed.
\<close>

theorem prefix_scenario_counterexample:
  "map doc_id scenario_docs = [''doc1_0'', ''doc1_1'', ''doc2_0''] \<and>
   addDocumentChunks down_env scenario_docs (degraded_service []) =
     Some ((), degraded_service scenario_store) \<and>
   countYoutubeTranscriptChunks down_env ''doc1'' (degraded_service scenario_store) =
     Some (0, degraded_service scenario_store) \<and>
   deleteYoutubeTranscriptChunks down_env ''doc1'' (degraded_service scenario_store) =
     Some (0, degraded_service scenario_store) \<and>
   getUniqueDocumentNames down_env (degraded_service scenario_store) =
     Some ([''one.pdf'', ''two.pdf''], degraded_service scenario_store)"
  using scenario_add_run scenario_count_run scenario_delete_run scenario_names_run
  by (simp add: scenario_docs_def chunk_sel)

text \<open>
  C3, as the code has it. After writing exactly three records with ids
  \<open>youtube_doc1_0\<close>, \<open>youtube_doc1_1\<close>, \<open>youtube_doc2_0\<close> to an empty in-memory store (the
  coordinator being degraded), \<open>countYoutubeTranscriptChunks("doc1")\<close> returns 2,
  \<open>deleteYoutubeTranscriptChunks("doc1")\<close> returns 2 and leaves the third record alone,
  and \<open>getUniqueDocumentNames()\<close> then returns exactly the document name of the third
  record, provided that name is not empty; so it lists no name of the deleted records
  that differs from it.
\<close>

theorem youtube_prefix_scenario:
  assumes degraded: "fallbackActive (fallbackService s)"
    and empty: "inMemoryDocuments s = []"
    and ids: "doc_id d1 = ''youtube_doc1_0''" "doc_id d2 = ''youtube_doc1_1''"
      "doc_id d3 = ''youtube_doc2_0''"
    and name: "doc_documentName d3 \<noteq> []"
    and others: "doc_documentName d1 \<noteq> doc_documentName d3"
      "doc_documentName d2 \<noteq> doc_documentName d3"
  shows "\<exists>s1 s2 names.
           addDocumentChunks env [d1, d2, d3] s = Some ((), s1) \<and>
           inMemoryDocuments s1 = [(doc_id d1, d1), (doc_id d2, d2), (doc_id d3, d3)] \<and>
           countYoutubeTranscriptChunks env ''doc1'' s1 = Some (2, s1) \<and>
           deleteYoutubeTranscriptChunks env ''doc1'' s1 = Some (2, s2) \<and>
           inMemoryDocuments s2 = [(doc_id d3, d3)] \<and>
           getUniqueDocumentNames env s2 = Some (names, s2) \<and>
           names = [doc_documentName d3] \<and>
           doc_documentName d1 \<notin> set names \<and> doc_documentName d2 \<notin> set names"
proof -
  let ?s1 = "s\<lparr> inMemoryDocuments := [(doc_id d1, d1), (doc_id d2, d2), (doc_id d3, d3)] \<rparr>"
  let ?s2 = "s\<lparr> inMemoryDocuments := [(doc_id d3, d3)] \<rparr>"
  have add: "addDocumentChunks env [d1, d2, d3] s = Some ((), ?s1)"
    using degraded empty ids
    by (simp add: addDocumentChunks_def withFallback_degraded_eq addDocumentChunks_fallback_def)
  have cnt: "countYoutubeTranscriptChunks env ''doc1'' ?s1 = Some (2, ?s1)"
    using ids degraded
    by (simp add: countYoutubeTranscriptChunks_def withFallback_degraded_eq
        countYoutubeTranscriptChunks_fallback_def idPattern_def)
  have del: "deleteYoutubeTranscriptChunks env ''doc1'' ?s1 = Some (2, ?s2)"
    using ids degraded
    by (simp add: deleteYoutubeTranscriptChunks_def withFallback_degraded_eq
        deleteYoutubeTranscriptChunks_fallback_def idPattern_def)
  have nms: "getUniqueDocumentNames env ?s2 = Some ([doc_documentName d3], ?s2)"
    using name degraded
    by (simp add: getUniqueDocumentNames_def withFallback_degraded_eq
        getUniqueDocumentNames_fallback_def set_add_def)
  show ?thesis
    apply (rule exI [of _ ?s1])
    apply (rule exI [of _ ?s2])
    apply (rule exI [of _ "[doc_documentName d3]"])
    using add cnt del nms others by simp
qed

theorem youtube_prefix_scenario_witness:
  "fallbackActive (fallbackService (degraded_service [])) \<and>
   inMemoryDocuments (degraded_service []) = [] \<and>
   map doc_id youtube_docs = [''youtube_doc1_0'', ''youtube_doc1_1'', ''youtube_doc2_0''] \<and>
   map doc_documentName youtube_docs = [''one.pdf'', ''one.pdf'', ''two.pdf''] \<and>
   (\<exists>s1 s2.
      addDocumentChunks down_env youtube_docs (degraded_service []) = Some ((), s1) \<and>
      countYoutubeTranscriptChunks down_env ''doc1'' s1 = Some (2, s1) \<and>
      deleteYoutubeTranscriptChunks down_env ''doc1'' s1 = Some (2, s2) \<and>
      getUniqueDocumentNames down_env s2 = Some ([''two.pdf''], s2))"
proof -
  let ?d1 = "chunk ''youtube_doc1_0'' ''one.pdf'' None [3, 4]"
  let ?d2 = "chunk ''youtube_doc1_1'' ''one.pdf'' None [3, 4]"
  let ?d3 = "chunk ''youtube_doc2_0'' ''two.pdf'' None [3, 4]"
  have h1: "fallbackActive (fallbackService (degraded_service []))"
    and h2: "inMemoryDocuments (degraded_service ([]::docs)) = []"
    by (simp_all add: degraded_service_def)
  have i1: "doc_id ?d1 = ''youtube_doc1_0''" and i2: "doc_id ?d2 = ''youtube_doc1_1''"
    and i3: "doc_id ?d3 = ''youtube_doc2_0''"
    and n3: "doc_documentName ?d3 \<noteq> []"
    and n1: "doc_documentName ?d1 \<noteq> doc_documentName ?d3"
    and n2: "doc_documentName ?d2 \<noteq> doc_documentName ?d3"
    by (simp_all add: chunk_sel)
  from youtube_prefix_scenario [OF h1 h2 i1 i2 i3 n3 n1 n2, of down_env]
  have "\<exists>s1 s2.
      addDocumentChunks down_env youtube_docs (degraded_service []) = Some ((), s1) \<and>
      countYoutubeTranscriptChunks down_env ''doc1'' s1 = Some (2, s1) \<and>
      deleteYoutubeTranscriptChunks down_env ''doc1'' s1 = Some (2, s2) \<and>
      getUniqueDocumentNames down_env s2 = Some ([''two.pdf''], s2)"
    unfolding youtube_docs_def by (simp only: chunk_sel) blast
  moreover have "map doc_id youtube_docs = [''youtube_doc1_0'', ''youtube_doc1_1'', ''youtube_doc2_0'']"
    "map doc_documentName youtube_docs = [''one.pdf'', ''one.pdf'', ''two.pdf'']"
    by (simp_all add: youtube_docs_def chunk_sel)
  ultimately show ?thesis using h1 h2 by (intro conjI)
qed


section \<open>The last tier of the existence check\<close>

lemma issue_calls: "issue req f q = Some (r, q') \<Longrightarrow> calls q' = calls q @ [req]"
  by (auto simp: issue_def split: prod.splits)

lemma call_count_calls:
  "call_count env flt q = Some (r, q') \<Longrightarrow> calls q' = calls q @ [Count (COLLECTION_NAME env) flt]"
  unfolding call_count_def by (rule issue_calls)

lemma call_scroll_calls:
  "call_scroll env flt wp limit offset q = Some (r, q') \<Longrightarrow>
   calls q' = calls q @ [Scroll (COLLECTION_NAME env) flt wp limit offset]"
  unfolding call_scroll_def by (rule issue_calls)

text \<open>
  C6, as the code has it. When the count and the filtered scroll both fail, the
  existence check sends one unfiltered scroll request, with limit 100 and no cursor,
  and answers from the points of that single page: true exactly when one of them has
  a payload id starting with the pattern. It never asks for a second page.
\<close>

theorem existence_last_tier_reads_one_page:
  assumes t1: "call_count env (id_text_filter (idPattern videoId)) q = Some (Inl e1, q1)"
    and t2: "call_scroll env (Some (id_text_filter (idPattern videoId))) PayloadAll 1 None q1 =
               Some (Inl e2, q2)"
    and t3: "call_scroll env None PayloadAll 100 None q2 = Some (Inr page, q3)"
  shows "doesTranscriptExist_qdrant env videoId q =
           Some (Inr (list_ex (payload_id_startsWith (idPattern videoId)) (points page)), q3) \<and>
         calls q3 = calls q @
           [Count (COLLECTION_NAME env) (id_text_filter (idPattern videoId)),
            Scroll (COLLECTION_NAME env) (Some (id_text_filter (idPattern videoId))) PayloadAll 1 None,
            Scroll (COLLECTION_NAME env) None PayloadAll 100 None]"
proof
  show "doesTranscriptExist_qdrant env videoId q =
           Some (Inr (list_ex (payload_id_startsWith (idPattern videoId)) (points page)), q3)"
    using t1 t2 t3
    by (simp add: doesTranscriptExist_qdrant_def tryCatch_def andThen_def resolve_def)
  show "calls q3 = calls q @
           [Count (COLLECTION_NAME env) (id_text_filter (idPattern videoId)),
            Scroll (COLLECTION_NAME env) (Some (id_text_filter (idPattern videoId))) PayloadAll 1 None,
            Scroll (COLLECTION_NAME env) None PayloadAll 100 None]"
    using call_count_calls [OF t1] call_scroll_calls [OF t2] call_scroll_calls [OF t3] by simp
qed


lemma length_fillers: "length (map filler [0..<100]) = 100"
  by simp

lemma filler_no_match: "\<not> payload_id_startsWith (idPattern ''v9'') (filler n)"
  by (simp add: payload_id_startsWith_def filler_def payload_of_doc_def chunk_sel idPattern_def)

lemma target_matches: "payload_id_startsWith (idPattern ''v9'') target"
  by (simp add: payload_id_startsWith_def target_def payload_of_doc_def chunk_sel idPattern_def)

lemma first_page_srv101:
  "memory_scroll name None wp 100 None srv101 =
     (Inr \<lparr> points = map filler [0..<100], next_page_offset = Some ''target'' \<rparr>, srv101)"
  using length_fillers
  by (simp add: memory_scroll_def filter_rejected_def selected_def srv101_def target_def
      del: length_map map_upt_Suc upt_Suc)

lemma srv101_t1:
  "call_count memory_env (id_text_filter (idPattern ''v9''))
     \<lparr> backend = srv101, calls = [], uuid_count = 0 \<rparr> =
   Some (Inl ''text match is not supported'',
         \<lparr> backend = srv101,
           calls = [Count ''knowledge_base'' (id_text_filter (idPattern ''v9''))],
           uuid_count = 0 \<rparr>)"
  by (simp add: call_count_def issue_def memory_env_def memory_client_def memory_count_def
      filter_rejected_def id_text_filter_def srv101_def)

lemma srv101_t2:
  "call_scroll memory_env (Some (id_text_filter (idPattern ''v9''))) PayloadAll 1 None
     \<lparr> backend = srv101,
       calls = [Count ''knowledge_base'' (id_text_filter (idPattern ''v9''))],
       uuid_count = 0 \<rparr> =
   Some (Inl ''text match is not supported'',
         \<lparr> backend = srv101,
           calls = [Count ''knowledge_base'' (id_text_filter (idPattern ''v9'')),
                    Scroll ''knowledge_base'' (Some (id_text_filter (idPattern ''v9''))) PayloadAll 1 None],
           uuid_count = 0 \<rparr>)"
  by (simp add: call_scroll_def issue_def memory_env_def memory_client_def memory_scroll_def
      filter_rejected_def id_text_filter_def srv101_def)

lemma srv101_t3:
  "call_scroll memory_env None PayloadAll 100 None
     \<lparr> backend = srv101,
       calls = [Count ''knowledge_base'' (id_text_filter (idPattern ''v9'')),
                Scroll ''knowledge_base'' (Some (id_text_filter (idPattern ''v9''))) PayloadAll 1 None],
       uuid_count = 0 \<rparr> =
   Some (Inr \<lparr> points = map filler [0..<100], next_page_offset = Some ''target'' \<rparr>,
         \<lparr> backend = srv101,
           calls = [Count ''knowledge_base'' (id_text_filter (idPattern ''v9'')),
                    Scroll ''knowledge_base'' (Some (id_text_filter (idPattern ''v9''))) PayloadAll 1 None,
                    Scroll ''knowledge_base'' None PayloadAll 100 None],
           uuid_count = 0 \<rparr>)"
  by (simp add: call_scroll_def issue_def memory_env_def memory_client_def first_page_srv101
      del: map_upt_Suc upt_Suc)

lemma no_filler_matches:
  "list_ex (payload_id_startsWith (idPattern ''v9'')) (map filler [0..<100]) = False"
  by (simp add: list_ex_iff filler_no_match del: map_upt_Suc upt_Suc)

theorem existence_last_tier_reads_one_page_witness:
  "call_count memory_env (id_text_filter (idPattern ''v9''))
     \<lparr> backend = srv101, calls = [], uuid_count = 0 \<rparr> =
   Some (Inl ''text match is not supported'',
         \<lparr> backend = srv101,
           calls = [Count ''knowledge_base'' (id_text_filter (idPattern ''v9''))],
           uuid_count = 0 \<rparr>) \<and>
   doesTranscriptExist_qdrant memory_env ''v9'' \<lparr> backend = srv101, calls = [], uuid_count = 0 \<rparr> =
     Some (Inr False,
           \<lparr> backend = srv101,
             calls = [Count ''knowledge_base'' (id_text_filter (idPattern ''v9'')),
                      Scroll ''knowledge_base'' (Some (id_text_filter (idPattern ''v9''))) PayloadAll 1 None,
                      Scroll ''knowledge_base'' None PayloadAll 100 None],
             uuid_count = 0 \<rparr>)"
  using existence_last_tier_reads_one_page [OF srv101_t1 srv101_t2 srv101_t3] srv101_t1
  by (simp add: no_filler_matches del: map_upt_Suc upt_Suc)

text \<open>
  C6 as stated fails. A collection of 101 points whose last point is a transcript chunk
  of the video \<open>v9\<close>, on a server that rejects text-match filters: the existence check
  reads the first hundred points only and answers false.
\<close>

theorem existence_last_tier_counterexample:
  "length (srv_points srv101) = 101 \<and>
   list_ex (payload_id_startsWith (idPattern ''v9'')) (srv_points srv101) \<and>
   doesTranscriptExist_qdrant memory_env ''v9'' \<lparr> backend = srv101, calls = [], uuid_count = 0 \<rparr> =
     Some (Inr False,
           \<lparr> backend = srv101,
             calls = [Count ''knowledge_base'' (id_text_filter (idPattern ''v9'')),
                      Scroll ''knowledge_base'' (Some (id_text_filter (idPattern ''v9''))) PayloadAll 1 None,
                      Scroll ''knowledge_base'' None PayloadAll 100 None],
             uuid_count = 0 \<rparr>)"
proof (intro conjI)
  show "length (srv_points srv101) = 101"
    by (simp add: srv101_def)
  show "list_ex (payload_id_startsWith (idPattern ''v9'')) (srv_points srv101)"
    by (simp add: srv101_def target_matches del: map_upt_Suc upt_Suc)
  show "doesTranscriptExist_qdrant memory_env ''v9'' \<lparr> backend = srv101, calls = [], uuid_count = 0 \<rparr> =
     Some (Inr False,
           \<lparr> backend = srv101,
             calls = [Count ''knowledge_base'' (id_text_filter (idPattern ''v9'')),
                      Scroll ''knowledge_base'' (Some (id_text_filter (idPattern ''v9''))) PayloadAll 1 None,
                      Scroll ''knowledge_base'' None PayloadAll 100 None],
             uuid_count = 0 \<rparr>)"
    using srv101_t1 srv101_t2 srv101_t3
    by (simp add: doesTranscriptExist_qdrant_def tryCatch_def andThen_def resolve_def
        no_filler_matches del: map_upt_Suc upt_Suc)
qed

section \<open>Tiers of the prefix operations\<close>

text \<open>
  C2, as the code has it. In the Qdrant closures of the prefix existence, count and
  delete operations a later tier runs only when the tier before it was rejected; a
  resolved tier, also one that found nothing, is the answer, and no further request is
  sent. When every tier is rejected, the existence check resolves to false, whereas the
  count and the delete reject with the error of their first tier.
\<close>

theorem tiers_run_only_after_an_error:
  "(call_count env (id_text_filter (idPattern v)) q = Some (Inr n, q1) \<longrightarrow>
      doesTranscriptExist_qdrant env v q = Some (Inr (0 < n), q1) \<and>
      countYoutubeTranscriptChunks_qdrant env v q = Some (Inr n, q1) \<and>
      (n = 0 \<longrightarrow> deleteYoutubeTranscriptChunks_qdrant env v q = Some (Inr 0, q1)) \<and>
      (0 < n \<and> call_delete env (DeleteFilter (id_text_filter (idPattern v))) True q1 = Some (Inr u, q2)
         \<longrightarrow> deleteYoutubeTranscriptChunks_qdrant env v q = Some (Inr n, q2))) \<and>
   (call_count env (id_text_filter (idPattern v)) q = Some (Inl e1, q1) \<longrightarrow>
      (call_scroll env (Some (id_text_filter (idPattern v))) PayloadAll 1 None q1 = Some (Inr page, q2)
         \<longrightarrow> doesTranscriptExist_qdrant env v q = Some (Inr (0 < length (points page)), q2)) \<and>
      (call_scroll env (Some (id_text_filter (idPattern v))) PayloadAll 1 None q1 = Some (Inl e2, q2) \<and>
       call_scroll env None PayloadAll 100 None q2 = Some (Inl e3, q3)
         \<longrightarrow> doesTranscriptExist_qdrant env v q = Some (Inr False, q3)) \<and>
      (scroll_pages env None PayloadAll (count_matching_ids (idPattern v)) 0 None q1 = Some (Inr k, q2)
         \<longrightarrow> countYoutubeTranscriptChunks_qdrant env v q = Some (Inr k, q2)) \<and>
      (scroll_pages env None PayloadAll (count_matching_ids (idPattern v)) 0 None q1 = Some (Inl e2, q2)
         \<longrightarrow> countYoutubeTranscriptChunks_qdrant env v q = Some (Inl e1, q2)) \<and>
      (scroll_pages env None PayloadAll (collect_matching_ids (idPattern v)) [] None q1 = Some (Inr [], q2)
         \<longrightarrow> deleteYoutubeTranscriptChunks_qdrant env v q = Some (Inr 0, q2)) \<and>
      (scroll_pages env None PayloadAll (collect_matching_ids (idPattern v)) [] None q1 = Some (Inl e2, q2)
         \<longrightarrow> deleteYoutubeTranscriptChunks_qdrant env v q = Some (Inl e1, q2)))"
proof (intro conjI impI)
  assume c: "call_count env (id_text_filter (idPattern v)) q = Some (Inr n, q1)"
  show "doesTranscriptExist_qdrant env v q = Some (Inr (0 < n), q1)"
    using c by (simp add: doesTranscriptExist_qdrant_def tryCatch_def andThen_def resolve_def)
  show "countYoutubeTranscriptChunks_qdrant env v q = Some (Inr n, q1)"
    using c by (simp add: countYoutubeTranscriptChunks_qdrant_def tryCatch_def)
  show "deleteYoutubeTranscriptChunks_qdrant env v q = Some (Inr 0, q1)" if "n = 0"
    using c that
    by (simp add: deleteYoutubeTranscriptChunks_qdrant_def tryCatch_def andThen_def resolve_def)
  show "deleteYoutubeTranscriptChunks_qdrant env v q = Some (Inr n, q2)"
    if "0 < n \<and> call_delete env (DeleteFilter (id_text_filter (idPattern v))) True q1 = Some (Inr u, q2)"
    using c that
    by (simp add: deleteYoutubeTranscriptChunks_qdrant_def tryCatch_def andThen_def resolve_def)
next
  assume c: "call_count env (id_text_filter (idPattern v)) q = Some (Inl e1, q1)"
  show "doesTranscriptExist_qdrant env v q = Some (Inr (0 < length (points page)), q2)"
    if "call_scroll env (Some (id_text_filter (idPattern v))) PayloadAll 1 None q1 = Some (Inr page, q2)"
    using c that
    by (simp add: doesTranscriptExist_qdrant_def tryCatch_def andThen_def resolve_def)
  show "doesTranscriptExist_qdrant env v q = Some (Inr False, q3)"
    if "call_scroll env (Some (id_text_filter (idPattern v))) PayloadAll 1 None q1 = Some (Inl e2, q2) \<and>
        call_scroll env None PayloadAll 100 None q2 = Some (Inl e3, q3)"
    using c that
    by (simp add: doesTranscriptExist_qdrant_def tryCatch_def andThen_def resolve_def)
  show "countYoutubeTranscriptChunks_qdrant env v q = Some (Inr k, q2)"
    if "scroll_pages env None PayloadAll (count_matching_ids (idPattern v)) 0 None q1 = Some (Inr k, q2)"
    using c that by (simp add: countYoutubeTranscriptChunks_qdrant_def tryCatch_def)
  show "countYoutubeTranscriptChunks_qdrant env v q = Some (Inl e1, q2)"
    if "scroll_pages env None PayloadAll (count_matching_ids (idPattern v)) 0 None q1 = Some (Inl e2, q2)"
    using c that by (simp add: countYoutubeTranscriptChunks_qdrant_def tryCatch_def reject_def)
  show "deleteYoutubeTranscriptChunks_qdrant env v q = Some (Inr 0, q2)"
    if "scroll_pages env None PayloadAll (collect_matching_ids (idPattern v)) [] None q1 = Some (Inr [], q2)"
    using c that
    by (simp add: deleteYoutubeTranscriptChunks_qdrant_def tryCatch_def andThen_def resolve_def)
  show "deleteYoutubeTranscriptChunks_qdrant env v q = Some (Inl e1, q2)"
    if "scroll_pages env None PayloadAll (collect_matching_ids (idPattern v)) [] None q1 = Some (Inl e2, q2)"
    using c that
    by (simp add: deleteYoutubeTranscriptChunks_qdrant_def tryCatch_def andThen_def reject_def)
qed


lemma down_count:
  "call_count down_env flt \<lparr> backend = (), calls = cs, uuid_count = n \<rparr> =
     Some (Inl ''ECONNREFUSED'',
           \<lparr> backend = (), calls = cs @ [Count ''knowledge_base'' flt], uuid_count = n \<rparr>)"
  by (simp add: call_count_def issue_def down_env_def down_client_def)

lemma down_scroll:
  "call_scroll down_env flt wp limit offset \<lparr> backend = (), calls = cs, uuid_count = n \<rparr> =
     Some (Inl ''ECONNREFUSED'',
           \<lparr> backend = (), calls = cs @ [Scroll ''knowledge_base'' flt wp limit offset],
             uuid_count = n \<rparr>)"
  by (simp add: call_scroll_def issue_def down_env_def down_client_def)

lemma down_scroll_pages:
  "scroll_pages down_env flt wp body acc offset \<lparr> backend = (), calls = cs, uuid_count = n \<rparr> =
     Some (Inl ''ECONNREFUSED'',
           \<lparr> backend = (), calls = cs @ [Scroll ''knowledge_base'' flt wp 100 offset],
             uuid_count = n \<rparr>)"
  by (subst scroll_pages.simps) (simp add: down_scroll)

lemma text_count_zero:
  "call_count memory_env (id_text_filter (idPattern ''zz''))
     \<lparr> backend = srv2_text, calls = [], uuid_count = 0 \<rparr> =
   Some (Inr 0,
         \<lparr> backend = srv2_text,
           calls = [Count ''knowledge_base'' (id_text_filter (idPattern ''zz''))],
           uuid_count = 0 \<rparr>)"
  by (simp add: call_count_def issue_def memory_env_def memory_client_def memory_count_def
      filter_rejected_def selected_def id_text_filter_def srv2_text_def srv2_def field_of_def
      payload_of_doc_def chunk_sel idPattern_def)

text \<open>
  C2 as stated fails: over an unreachable server both tiers of the count and of the
  delete are rejected, and the closures reject with the first error instead of resolving
  to 0.
\<close>

theorem exhausted_tiers_counterexample:
  "countYoutubeTranscriptChunks_qdrant down_env ''v1'' \<lparr> backend = (), calls = [], uuid_count = 0 \<rparr> =
     Some (Inl ''ECONNREFUSED'',
           \<lparr> backend = (),
             calls = [Count ''knowledge_base'' (id_text_filter (idPattern ''v1'')),
                      Scroll ''knowledge_base'' None PayloadAll 100 None],
             uuid_count = 0 \<rparr>) \<and>
   deleteYoutubeTranscriptChunks_qdrant down_env ''v1'' \<lparr> backend = (), calls = [], uuid_count = 0 \<rparr> =
     Some (Inl ''ECONNREFUSED'',
           \<lparr> backend = (),
             calls = [Count ''knowledge_base'' (id_text_filter (idPattern ''v1'')),
                      Scroll ''knowledge_base'' None PayloadAll 100 None],
             uuid_count = 0 \<rparr>)"
  by (simp add: countYoutubeTranscriptChunks_qdrant_def deleteYoutubeTranscriptChunks_qdrant_def
      tryCatch_def andThen_def reject_def down_count down_scroll_pages)

theorem tiers_run_only_after_an_error_witness:
  "call_count memory_env (id_text_filter (idPattern ''zz''))
     \<lparr> backend = srv2_text, calls = [], uuid_count = 0 \<rparr> =
   Some (Inr 0,
         \<lparr> backend = srv2_text,
           calls = [Count ''knowledge_base'' (id_text_filter (idPattern ''zz''))],
           uuid_count = 0 \<rparr>) \<and>
   doesTranscriptExist_qdrant memory_env ''zz'' \<lparr> backend = srv2_text, calls = [], uuid_count = 0 \<rparr> =
   Some (Inr False,
         \<lparr> backend = srv2_text,
           calls = [Count ''knowledge_base'' (id_text_filter (idPattern ''zz''))],
           uuid_count = 0 \<rparr>) \<and>
   countYoutubeTranscriptChunks_qdrant memory_env ''zz'' \<lparr> backend = srv2_text, calls = [], uuid_count = 0 \<rparr> =
   Some (Inr 0,
         \<lparr> backend = srv2_text,
           calls = [Count ''knowledge_base'' (id_text_filter (idPattern ''zz''))],
           uuid_count = 0 \<rparr>) \<and>
   deleteYoutubeTranscriptChunks_qdrant memory_env ''zz'' \<lparr> backend = srv2_text, calls = [], uuid_count = 0 \<rparr> =
   Some (Inr 0,
         \<lparr> backend = srv2_text,
           calls = [Count ''knowledge_base'' (id_text_filter (idPattern ''zz''))],
           uuid_count = 0 \<rparr>) \<and>
   doesTranscriptExist_qdrant down_env ''v1'' \<lparr> backend = (), calls = [], uuid_count = 0 \<rparr> =
   Some (Inr False,
         \<lparr> backend = (),
           calls = [Count ''knowledge_base'' (id_text_filter (idPattern ''v1'')),
                    Scroll ''knowledge_base'' (Some (id_text_filter (idPattern ''v1''))) PayloadAll 1 None,
                    Scroll ''knowledge_base'' None PayloadAll 100 None],
           uuid_count = 0 \<rparr>) \<and>
   countYoutubeTranscriptChunks_qdrant down_env ''v1'' \<lparr> backend = (), calls = [], uuid_count = 0 \<rparr> =
   Some (Inl ''ECONNREFUSED'',
         \<lparr> backend = (),
           calls = [Count ''knowledge_base'' (id_text_filter (idPattern ''v1'')),
                    Scroll ''knowledge_base'' None PayloadAll 100 None],
           uuid_count = 0 \<rparr>)"
proof -
  let ?q0 = "\<lparr> backend = srv2_text, calls = [], uuid_count = 0 \<rparr>"
  let ?q1 = "\<lparr> backend = srv2_text,
               calls = [Count ''knowledge_base'' (id_text_filter (idPattern ''zz''))],
               uuid_count = 0 \<rparr>"
  let ?d0 = "\<lparr> backend = (), calls = [], uuid_count = 0 \<rparr>"
  let ?d1 = "\<lparr> backend = (),
               calls = [Count ''knowledge_base'' (id_text_filter (idPattern ''v1''))],
               uuid_count = 0 \<rparr>"
  let ?d2 = "\<lparr> backend = (),
               calls = [Count ''knowledge_base'' (id_text_filter (idPattern ''v1'')),
                        Scroll ''knowledge_base'' (Some (id_text_filter (idPattern ''v1''))) PayloadAll 1 None],
               uuid_count = 0 \<rparr>"
  let ?d3 = "\<lparr> backend = (),
               calls = [Count ''knowledge_base'' (id_text_filter (idPattern ''v1'')),
                        Scroll ''knowledge_base'' (Some (id_text_filter (idPattern ''v1''))) PayloadAll 1 None,
                        Scroll ''knowledge_base'' None PayloadAll 100 None],
               uuid_count = 0 \<rparr>"
  let ?d2' = "\<lparr> backend = (),
               calls = [Count ''knowledge_base'' (id_text_filter (idPattern ''v1'')),
                        Scroll ''knowledge_base'' None PayloadAll 100 None],
               uuid_count = 0 \<rparr>"
  note zero = tiers_run_only_after_an_error
    [where env = memory_env and v = "''zz''" and q = ?q0 and n = 0 and ?q1.0 = ?q1]
  note down = tiers_run_only_after_an_error
    [where env = down_env and v = "''v1''" and q = ?d0 and ?e1.0 = "''ECONNREFUSED''"
       and ?q1.0 = ?d1]
  have c1: "call_count down_env (id_text_filter (idPattern ''v1'')) ?d0 = Some (Inl ''ECONNREFUSED'', ?d1)"
    by (simp add: down_count)
  have c2: "call_scroll down_env (Some (id_text_filter (idPattern ''v1''))) PayloadAll 1 None ?d1 =
              Some (Inl ''ECONNREFUSED'', ?d2)"
    by (simp add: down_scroll)
  have c3: "call_scroll down_env None PayloadAll 100 None ?d2 = Some (Inl ''ECONNREFUSED'', ?d3)"
    by (simp add: down_scroll)
  have c4: "scroll_pages down_env None PayloadAll (count_matching_ids (idPattern ''v1'')) 0 None ?d1 =
              Some (Inl ''ECONNREFUSED'', ?d2')"
    by (simp add: down_scroll_pages)
  from zero text_count_zero
  have a: "doesTranscriptExist_qdrant memory_env ''zz'' ?q0 = Some (Inr False, ?q1)"
    and b: "countYoutubeTranscriptChunks_qdrant memory_env ''zz'' ?q0 = Some (Inr 0, ?q1)"
    and c: "deleteYoutubeTranscriptChunks_qdrant memory_env ''zz'' ?q0 = Some (Inr 0, ?q1)"
    by simp_all
  from down [where ?q2.0 = ?d2 and ?e2.0 = "''ECONNREFUSED''" and ?e3.0 = "''ECONNREFUSED''"
      and ?q3.0 = ?d3] c1 c2 c3
  have d: "doesTranscriptExist_qdrant down_env ''v1'' ?d0 = Some (Inr False, ?d3)"
    by blast
  from down [where ?q2.0 = ?d2' and ?e2.0 = "''ECONNREFUSED''"] c1 c4
  have e: "countYoutubeTranscriptChunks_qdrant down_env ''v1'' ?d0 = Some (Inl ''ECONNREFUSED'', ?d2')"
    by blast
  from text_count_zero a b c d e show ?thesis by (intro conjI)
qed


end
